theory Spec2Isabelle
  imports Complex_Main "HOL-Library.Multiset"
begin

section \<open>Numbers and weighted entries\<close>

text \<open>
  JavaScript numbers are modelled as the real numbers they denote. Where the source
  can meet a value that is not a number, this is written out: an absent field
  (\<^verbatim>\<open>undefined\<close>) is \<open>None\<close>, a division whose divisor may be zero is
  compared through \<open>jsDivGt\<close>, and a score of the content-request handler that is
  not a finite number has a value of its own.
\<close>

record entry =
  name :: string
  weight :: real

record interest_set =
  set_topics :: "entry list"
  set_hashtags :: "entry list"

definition emptyInterestSet :: interest_set where
  "emptyInterestSet = \<lparr>set_topics = [], set_hashtags = []\<rparr>"

text \<open>
  \<^verbatim>\<open>a / b > c\<close> for a positive constant \<open>c\<close>: with \<open>b = 0\<close> the quotient is
  \<^verbatim>\<open>Infinity\<close> when \<open>a > 0\<close> (the comparison holds) and \<^verbatim>\<open>-Infinity\<close> or
  \<^verbatim>\<open>NaN\<close> otherwise (it fails).
\<close>

definition jsDivGt :: "real \<Rightarrow> real \<Rightarrow> real \<Rightarrow> bool" where
  "jsDivGt a b c = (if b = 0 then a > 0 else a / b > c)"

text \<open>\<^verbatim>\<open>x || d\<close> on an optional number: \<^verbatim>\<open>undefined\<close> and \<open>0\<close> are falsy.\<close>

definition orElse :: "real option \<Rightarrow> real \<Rightarrow> real" where
  "orElse x d = (case x of None \<Rightarrow> d | Some v \<Rightarrow> if v = 0 then d else v)"

text \<open>\<^verbatim>\<open>xs.sort((a, b) => b.k - a.k)\<close>: a stable sort, descending by the key.\<close>

definition sortDesc :: "('a \<Rightarrow> real) \<Rightarrow> 'a list \<Rightarrow> 'a list" where
  "sortDesc k xs = sort_key (\<lambda>x. - k x) xs"

subsection \<open>Rounding to a double\<close>

text \<open>
  A JavaScript number is an IEEE 754 double, and every arithmetic operation returns the
  double nearest to the exact result, ties going to the even significand. The weights
  of the rule-based scorer and the scores of the content-request handler are sums and
  products of fractions such as 0.6, 0.4 and 0.3, which are not doubles, and their
  order and their comparison with 0.1 depend on the rounding: there every operation
  of the source is written with \<open>fl\<close> around its exact result, and every decimal
  literal \<open>c\<close> as \<open>fl c\<close>.

  \<open>binade x\<close> is the exponent \<open>e\<close> of a positive \<open>x\<close>: the integer with
  \<open>2 powi e \<le> x < 2 powi (e + 1)\<close>. The doubles of that binade are the multiples of
  \<open>2 powi (e - 52)\<close>; below \<open>2 powi (- 1022)\<close> the spacing stays \<open>2 powi (- 1074)\<close>.
  \<open>fl\<close> knows no largest double. The handler, whose weights come with the request,
  tests every result for overflow; the tallies of the scorer are sums of small
  integers, which stay far below it.
\<close>

function binade :: "real \<Rightarrow> int" where
  "binade x = (if x \<ge> 2 then binade (x / 2) + 1
               else if 0 < x \<and> x < 1 then binade (x * 2) - 1
               else 0)"
  by pat_completeness auto
termination
proof (relation "measure (\<lambda>x. nat \<lceil>x\<rceil> + 2 * nat \<lceil>1 / x\<rceil>)")
  show "wf (measure (\<lambda>x::real. nat \<lceil>x\<rceil> + 2 * nat \<lceil>1 / x\<rceil>))" by simp
next
  fix x :: real
  assume big: "2 \<le> x"
  have "x / 2 \<le> x - 1" using big by simp
  then have "\<lceil>x / 2\<rceil> \<le> \<lceil>x - 1\<rceil>" by (rule ceiling_mono)
  then have a: "\<lceil>x / 2\<rceil> < \<lceil>x\<rceil>" by simp
  have b: "\<lceil>1 / (x / 2)\<rceil> = 1" "\<lceil>1 / x\<rceil> = 1"
    using big by (simp_all add: ceiling_eq_iff)
  have c: "0 < \<lceil>x / 2\<rceil>" using big by (simp add: ceiling_less_iff)
  show "(x / 2, x) \<in> measure (\<lambda>x. nat \<lceil>x\<rceil> + 2 * nat \<lceil>1 / x\<rceil>)"
    using a b c by simp
next
  fix x :: real
  assume "\<not> 2 \<le> x" and small: "0 < x \<and> x < 1"
  let ?y = "1 / x"
  have y: "1 < ?y" using small by simp
  have one: "\<lceil>x\<rceil> = 1" using small by (simp add: ceiling_eq_iff)
  have two: "\<lceil>x * 2\<rceil> \<le> 2" using small by (simp add: ceiling_le_iff)
  have half: "\<lceil>1 / (x * 2)\<rceil> < \<lceil>?y\<rceil>"
  proof (cases "?y \<le> 2")
    case True
    have "\<lceil>1 / (x * 2)\<rceil> = 1" using True y small by (simp add: ceiling_eq_iff field_simps)
    moreover have "\<lceil>?y\<rceil> = 2" using True y by (simp add: ceiling_eq_iff)
    ultimately show ?thesis by simp
  next
    case False
    have "1 / (x * 2) \<le> ?y - 1" using False small by (simp add: field_simps)
    then have "\<lceil>1 / (x * 2)\<rceil> \<le> \<lceil>?y - 1\<rceil>" by (rule ceiling_mono)
    then show ?thesis by simp
  qed
  have pos: "0 < \<lceil>1 / (x * 2)\<rceil>" "0 < \<lceil>x * 2\<rceil>"
    using small by (simp_all add: ceiling_less_iff)
  have A: "nat \<lceil>x * 2\<rceil> \<le> 2" using two by simp
  have B: "nat \<lceil>1 / (x * 2)\<rceil> < nat \<lceil>?y\<rceil>" using half pos(1) by linarith
  have C: "nat \<lceil>x\<rceil> = 1" using one by simp
  have "nat \<lceil>x * 2\<rceil> + 2 * nat \<lceil>1 / (x * 2)\<rceil> < nat \<lceil>x\<rceil> + 2 * nat \<lceil>?y\<rceil>"
    using A B unfolding C by linarith
  then show "(x * 2, x) \<in> measure (\<lambda>x. nat \<lceil>x\<rceil> + 2 * nat \<lceil>1 / x\<rceil>)"
    by simp
qed

declare binade.simps [simp del]

definition roundHalfEven :: "real \<Rightarrow> int" where
  "roundHalfEven y =
     (let f = \<lfloor>y\<rfloor>
      in if y - of_int f < 1 / 2 then f
         else if y - of_int f > 1 / 2 then f + 1
         else if even f then f else f + 1)"

definition fl :: "real \<Rightarrow> real" where
  "fl x =
     (if x = 0 then 0
      else (let u = 2 powi (max (binade \<bar>x\<bar>) (- 1022) - 52)
            in u * of_int (roundHalfEven (x / u))))"

section \<open>The natural-break selector\<close>

text \<open>
  The \<^verbatim>\<open>for\<close> loop of \<^verbatim>\<open>findNaturalSplit\<close>, with its loop variables
  \<open>i\<close>, \<open>maxGap\<close> and \<open>splitIdx\<close>; the \<^verbatim>\<open>break\<close> returns the index just set.
\<close>

function splitLoop :: "('a \<Rightarrow> real) \<Rightarrow> 'a list \<Rightarrow> real \<Rightarrow> nat \<Rightarrow> real \<Rightarrow> nat \<Rightarrow> nat" where
  "splitLoop scoreKey items gapThreshold i maxGap splitIdx =
     (if i < min (length items - 1) 10 then
        (let gap = scoreKey (items ! i) - scoreKey (items ! (i + 1)) in
         if (gap > maxGap \<and> gap > gapThreshold) \<or> jsDivGt gap (scoreKey (items ! i)) (4 / 10)
         then (if jsDivGt gap (scoreKey (items ! i)) (6 / 10) then i + 1
               else splitLoop scoreKey items gapThreshold (i + 1) gap (i + 1))
         else splitLoop scoreKey items gapThreshold (i + 1) maxGap splitIdx)
      else splitIdx)"
  by pat_completeness auto
termination
  by (relation "measure (\<lambda>(k, items, g, i, m, s). min (length items - 1) 10 - i)") auto

definition findNaturalSplit :: "'a list \<Rightarrow> real \<Rightarrow> ('a \<Rightarrow> real) \<Rightarrow> nat" where
  "findNaturalSplit items minThreshold scoreKey =
     (if length items \<le> 3 then length items
      else
        (let splitIdx = splitLoop scoreKey items (max (1 / 10) (scoreKey (items ! 0) * (1 / 4)))
                          0 0 (length items)
         in if splitIdx = length items
            then min 5 (length (filter (\<lambda>item. scoreKey item > minThreshold) items))
            else splitIdx))"

section \<open>Interaction records\<close>

text \<open>
  One record per content item. A field the source may leave out is an option; the four
  flags are only ever tested for truthiness, so an absent flag is \<open>False\<close>.
\<close>

record interaction =
  postId :: "string option"
  topics :: "string list option"
  hashtags :: "string list option"
  liked :: bool
  interested :: bool
  not_interested :: bool
  commented :: bool
  timeSpentMs :: "real option"
  duration :: "real option"
  timestamp :: real

definition WEIGHT_LIKED :: real where "WEIGHT_LIKED = 3"
definition WEIGHT_INTERESTED :: real where "WEIGHT_INTERESTED = 2"
definition WEIGHT_NOT_INTERESTED :: real where "WEIGHT_NOT_INTERESTED = - 4"
definition WEIGHT_COMMENTED :: real where "WEIGHT_COMMENTED = 3 / 2"
definition MIN_INTERACTIONS :: nat where "MIN_INTERACTIONS = 10"

text \<open>\<^verbatim>\<open>x || []\<close> on an optional array\<close>

definition orEmpty :: "'a list option \<Rightarrow> 'a list" where
  "orEmpty xs = (case xs of None \<Rightarrow> [] | Some ys \<Rightarrow> ys)"

text \<open>The sum of the four boolean terms, shared by both scoring formulas of the source.\<close>

definition booleanScore :: "interaction \<Rightarrow> real" where
  "booleanScore ir =
     (if liked ir then WEIGHT_LIKED else 0) + (if interested ir then WEIGHT_INTERESTED else 0)
     + (if not_interested ir then WEIGHT_NOT_INTERESTED else 0)
     + (if commented ir then WEIGHT_COMMENTED else 0)"

definition noSignal :: "interaction \<Rightarrow> bool" where
  "noSignal ir = (\<not> liked ir \<and> \<not> interested ir \<and> \<not> not_interested ir \<and> \<not> commented ir)"

section \<open>The classifier state and the TensorFlow.js boundary\<close>

text \<open>
  The module-level variables of the model file. \<^verbatim>\<open>modelTrainingPromise\<close> is
  \<^verbatim>\<open>null\<close> or a pending promise.
\<close>

record 'm model_state =
  tfModel :: "'m option"
  modelTrained :: bool
  modelTraining :: bool
  modelTrainingPromise :: "unit option"
  MODEL_TOPICS :: "string list"
  MODEL_HASHTAGS :: "string list"

text \<open>
  The library is a parameter. Building a model for an input size either succeeds, or
  throws in \<^verbatim>\<open>tf.sequential()\<close> (before \<^verbatim>\<open>tfModel\<close> is assigned), or throws
  later, with the half-built model already assigned. Fitting and predicting return
  \<open>None\<close> when the library throws or rejects; a prediction row holds the three
  class probabilities. Fitting changes the model in place, which is modelled by
  storing the fitted model in \<^verbatim>\<open>tfModel\<close>.
\<close>

datatype 'm built = Built 'm | SequentialThrew | SetupThrew 'm

record 'm tf =
  build :: "nat \<Rightarrow> 'm built"
  fit :: "'m \<Rightarrow> nat list list \<Rightarrow> nat list list \<Rightarrow> 'm option"
  predict :: "'m \<Rightarrow> nat list list \<Rightarrow> (real \<times> real \<times> real) list option"

datatype exn = Thrown

text \<open>The \<^verbatim>\<open>try\<close> block of \<^verbatim>\<open>loadModel\<close> after its \<^verbatim>\<open>await\<close>.\<close>

definition loadModel_try :: "'m tf \<Rightarrow> bool \<Rightarrow> 'm model_state \<Rightarrow> 'm model_state \<times> (exn + unit)" where
  "loadModel_try env force st =
     (if tfModel st = None \<or> force then
        (if MODEL_TOPICS st = [] then (st\<lparr>tfModel := None, modelTrained := False\<rparr>, Inr ())
         else
           (case build env (length (MODEL_TOPICS st)) of
              Built m \<Rightarrow> (st\<lparr>tfModel := Some m, modelTrained := False\<rparr>, Inr ())
            | SequentialThrew \<Rightarrow> (st, Inl Thrown)
            | SetupThrew m \<Rightarrow> (st\<lparr>tfModel := Some m\<rparr>, Inl Thrown)))
      else (st, Inr ()))"

definition loadModel_body :: "'m tf \<Rightarrow> bool \<Rightarrow> 'm model_state \<Rightarrow> 'm model_state" where
  "loadModel_body env force st =
     (case loadModel_try env force st of
        (st', Inl e) \<Rightarrow> st'\<lparr>modelTrained := False\<rparr>
      | (st', Inr u) \<Rightarrow> st')"

text \<open>
  An \<^verbatim>\<open>async\<close> function runs up to its next \<^verbatim>\<open>await\<close> and is resumed later,
  on the state of that moment. \<^verbatim>\<open>loadModel\<close> either suspends on the promise of a
  training run in flight or runs to its end.
\<close>

datatype load_phase = LoadReturned | LoadAwaitPromise

definition loadModel :: "'m tf \<Rightarrow> bool \<Rightarrow> 'm model_state \<Rightarrow> 'm model_state \<times> load_phase" where
  "loadModel env force st =
     (if modelTraining st \<and> modelTrainingPromise st \<noteq> None then (st, LoadAwaitPromise)
      else (loadModel_body env force st, LoadReturned))"

section \<open>Training\<close>

definition preferenceScore :: "interaction \<Rightarrow> real" where
  "preferenceScore ir =
     (if noSignal ir then
        (let time_watched = orElse (timeSpentMs ir) 0;
             timeRatio = time_watched / orElse (duration ir) 10000;
             timeScore = (timeRatio - 1 / 2) * 2
         in booleanScore ir + timeScore)
      else booleanScore ir)"

definition engagedOf :: "real \<Rightarrow> nat" where
  "engagedOf p = (if p \<le> - (3 / 2) then 0 else if p \<ge> 3 / 2 then 2 else 1)"

definition membership :: "string list \<Rightarrow> string list \<Rightarrow> nat list" where
  "membership vocabulary ts = map (\<lambda>t. if t \<in> set ts then 1 else 0) vocabulary"

text \<open>The rows \<^verbatim>\<open>xs\<close> and \<^verbatim>\<open>ys\<close>; a record without a topics array is skipped.\<close>

fun trainingRows :: "string list \<Rightarrow> interaction list \<Rightarrow> nat list list \<times> nat list list" where
  "trainingRows vocabulary [] = ([], [])"
| "trainingRows vocabulary (ir # rest) =
     (case topics ir of
        None \<Rightarrow> trainingRows vocabulary rest
      | Some ts \<Rightarrow>
          (let engaged = engagedOf (preferenceScore ir);
               x = membership vocabulary ts;
               y = [0, 0, 0][engaged := 1];
               r = trainingRows vocabulary rest
           in (x # fst r, y # snd r)))"

text \<open>\<^verbatim>\<open>xs.slice(-n)\<close>\<close>

definition lastN :: "nat \<Rightarrow> 'a list \<Rightarrow> 'a list" where
  "lastN n xs = drop (length xs - n) xs"

definition trainCatch :: "'m model_state \<Rightarrow> 'm model_state" where
  "trainCatch st = st\<lparr>modelTrained := False\<rparr>"

definition trainFinally :: "'m model_state \<Rightarrow> 'm model_state" where
  "trainFinally st = st\<lparr>modelTraining := False, modelTrainingPromise := None\<rparr>"

datatype 'm train_phase =
    TrainReturned
  | TrainAwaitPromise
  | TrainAwaitLoad
  | TrainAwaitFit 'm "nat list list" "nat list list"

text \<open>From the call up to \<^verbatim>\<open>await loadModel(true)\<close>.\<close>

definition trainModel_enter :: "'m tf \<Rightarrow> 'm model_state \<Rightarrow> interaction list \<Rightarrow> 'm model_state \<times> 'm train_phase" where
  "trainModel_enter env st interactions =
     (if modelTraining st \<or> MODEL_TOPICS st = [] then (st, TrainReturned)
      else if length interactions < MIN_INTERACTIONS then (st, TrainReturned)
      else
        (case loadModel env True st of
           (st', LoadAwaitPromise) \<Rightarrow> (st', TrainAwaitPromise)
         | (st', LoadReturned) \<Rightarrow> (st', TrainAwaitLoad)))"

text \<open>
  Resumed after \<^verbatim>\<open>loadModel\<close>: the flag is set, the rows are built, and the run
  either suspends on \<^verbatim>\<open>tfModel.fit\<close> or leaves through \<^verbatim>\<open>catch\<close> and
  \<^verbatim>\<open>finally\<close>. With \<^verbatim>\<open>tfModel\<close> null the call of \<^verbatim>\<open>fit\<close> throws.
\<close>

definition trainModel_loaded :: "'m model_state \<Rightarrow> interaction list \<Rightarrow> 'm model_state \<times> 'm train_phase" where
  "trainModel_loaded st interactions =
     (let st1 = st\<lparr>modelTraining := True, modelTrainingPromise := Some ()\<rparr>;
          recentInteractions = lastN 100 interactions;
          rows = trainingRows (MODEL_TOPICS st1) recentInteractions
      in if length (fst rows) > 0 \<and> length (hd (fst rows)) > 0 then
           (case tfModel st1 of
              None \<Rightarrow> (trainFinally (trainCatch st1), TrainReturned)
            | Some m \<Rightarrow> (st1, TrainAwaitFit m (fst rows) (snd rows)))
         else (trainFinally st1, TrainReturned))"

text \<open>Resumed when \<^verbatim>\<open>fit\<close> has settled.\<close>

definition trainModel_fitted :: "'m model_state \<Rightarrow> 'm option \<Rightarrow> 'm model_state" where
  "trainModel_fitted st outcome =
     (case outcome of
        Some m' \<Rightarrow> trainFinally (st\<lparr>tfModel := Some m', modelTrained := True\<rparr>)
      | None \<Rightarrow> trainFinally (trainCatch st))"

text \<open>
  A call that nothing else interleaves with, run to its end. The result is \<open>None\<close>
  when the call never returns (it waits on a promise nobody resolves), and otherwise
  the final state with the way the returned promise settled.
\<close>

datatype 'a settled = Resolved 'a | Rejected

definition trainModel :: "'m tf \<Rightarrow> 'm model_state \<Rightarrow> interaction list \<Rightarrow> ('m model_state \<times> unit settled) option" where
  "trainModel env st interactions =
     (case trainModel_enter env st interactions of
        (st1, TrainReturned) \<Rightarrow> Some (st1, Resolved ())
      | (st1, TrainAwaitPromise) \<Rightarrow> None
      | (st1, TrainAwaitFit m xs ys) \<Rightarrow> Some (trainModel_fitted st1 (fit env m xs ys), Resolved ())
      | (st1, TrainAwaitLoad) \<Rightarrow>
          (case trainModel_loaded st1 interactions of
             (st2, TrainAwaitFit m xs ys) \<Rightarrow> Some (trainModel_fitted st2 (fit env m xs ys), Resolved ())
           | (st2, TrainAwaitPromise) \<Rightarrow> None
           | (st2, p) \<Rightarrow> Some (st2, Resolved ())))"

section \<open>The rule-based scorer\<close>

text \<open>
  The local \<^verbatim>\<open>score\<close> of the loop body of \<^verbatim>\<open>analyzeWithoutModel\<close>. With
  \<^verbatim>\<open>timeSpentMs\<close> absent the ratio is \<^verbatim>\<open>NaN\<close> and both comparisons fail.
\<close>

definition reactionScore :: "interaction \<Rightarrow> real" where
  "reactionScore ir =
     (case timeSpentMs ir of
        None \<Rightarrow> booleanScore ir
      | Some t \<Rightarrow>
          (let timeRatio = t / orElse (duration ir) 10000
           in booleanScore ir + (if timeRatio > 7 / 10 then 1 else 0)
                - (if timeRatio < 2 / 10 then 1 else 0)))"

record tally =
  positive :: real
  negative :: real
  count :: nat

definition zeroTally :: tally where
  "zeroTally = \<lparr>positive = 0, negative = 0, count = 0\<rparr>"

text \<open>
  The score tables \<^verbatim>\<open>topicScores\<close> and \<^verbatim>\<open>hashtagScores\<close> are plain objects
  (\<^verbatim>\<open>{}\<close>). Such an object has its own properties, kept here as an association
  list in insertion order, and a prototype. The prototype is \<^verbatim>\<open>Object.prototype\<close>
  (\<open>proto = None\<close>) until a property named \<^verbatim>\<open>__proto__\<close> is assigned: that
  assignment runs the setter inherited from \<^verbatim>\<open>Object.prototype\<close>, which makes the
  assigned object the prototype of the table and creates no property.
\<close>

type_synonym board = "(string \<times> tally) list"

record scoreTable =
  own :: board
  proto :: "tally option"

definition emptyTable :: scoreTable where
  "emptyTable = \<lparr>own = [], proto = None\<rparr>"

definition boardSet :: "string \<Rightarrow> tally \<Rightarrow> board \<Rightarrow> board" where
  "boardSet k v b =
     (if k \<in> set (map fst b) then map (\<lambda>(k', d). if k' = k then (k', v) else (k', d)) b
      else b @ [(k, v)])"

text \<open>\<^verbatim>\<open>topicScores[topic] = { positive: 0, negative: 0, count: 0 }\<close>\<close>

definition tableSet :: "string \<Rightarrow> scoreTable \<Rightarrow> scoreTable" where
  "tableSet k t =
     (if k = ''__proto__'' then t\<lparr>proto := Some zeroTally\<rparr>
      else t\<lparr>own := boardSet k zeroTally (own t)\<rparr>)"

definition initTable :: "string list \<Rightarrow> scoreTable" where
  "initTable vocabulary = fold tableSet vocabulary emptyTable"

text \<open>The three statements of the guarded block, on a tally object.\<close>

definition bump :: "real \<Rightarrow> tally \<Rightarrow> tally" where
  "bump score d =
     \<lparr>positive = (if score > 0 then fl (positive d + score) else positive d),
      negative = (if score < 0 then fl (negative d + \<bar>score\<bar>) else negative d),
      count = count d + 1\<rparr>"

definition boardBump :: "real \<Rightarrow> string \<Rightarrow> board \<Rightarrow> board" where
  "boardBump score k b = map (\<lambda>(k', d). if k' = k then (k', bump score d) else (k', d)) b"

text \<open>
  The names that every plain object inherits from \<^verbatim>\<open>Object.prototype\<close>. All are
  functions but \<^verbatim>\<open>__proto__\<close>, an accessor that returns the prototype of the
  object.
\<close>

definition objectPrototypeNames :: "string list" where
  "objectPrototypeNames =
     [''constructor'', ''__defineGetter__'', ''__defineSetter__'', ''hasOwnProperty'',
      ''__lookupGetter__'', ''__lookupSetter__'', ''isPrototypeOf'', ''propertyIsEnumerable'',
      ''toString'', ''valueOf'', ''__proto__'', ''toLocaleString'']"

text \<open>
  What \<^verbatim>\<open>topicScores[topic]\<close> evaluates to. The table's own properties come first.
  Behind them lies the prototype chain: with the prototype replaced by a tally object
  \<open>P\<close>, \<^verbatim>\<open>__proto__\<close> returns \<open>P\<close> itself and \<^verbatim>\<open>positive\<close>, \<^verbatim>\<open>negative\<close> and
  \<^verbatim>\<open>count\<close> return the numbers in \<open>P\<close>; in either case the members of
  \<^verbatim>\<open>Object.prototype\<close> are found at the end of the chain (for \<^verbatim>\<open>__proto__\<close>, with
  the prototype not replaced, the value is \<^verbatim>\<open>Object.prototype\<close> itself). Any other
  name is \<^verbatim>\<open>undefined\<close>.
\<close>

datatype slot = OwnSlot | ProtoSlot | NumberSlot real | BuiltinSlot | NoSlot

definition lookupSlot :: "scoreTable \<Rightarrow> string \<Rightarrow> slot" where
  "lookupSlot t k =
     (if k \<in> set (map fst (own t)) then OwnSlot
      else
        (case proto t of
           None \<Rightarrow> if k \<in> set objectPrototypeNames then BuiltinSlot else NoSlot
         | Some P \<Rightarrow>
             if k = ''__proto__'' then ProtoSlot
             else if k = ''positive'' then NumberSlot (positive P)
             else if k = ''negative'' then NumberSlot (negative P)
             else if k = ''count'' then NumberSlot (real (count P))
             else if k \<in> set objectPrototypeNames then BuiltinSlot
             else NoSlot))"

text \<open>
  \<^verbatim>\<open>if (topicScores[topic]) { ... }\<close> for one name of a record. The guard holds for
  every object and every number other than 0 (and \<^verbatim>\<open>NaN\<close>): for a tally of the
  table, for the replaced prototype, and also for an inherited function, on which the
  three statements then create or overwrite the properties \<^verbatim>\<open>positive\<close>,
  \<^verbatim>\<open>negative\<close> and \<^verbatim>\<open>count\<close> (with \<^verbatim>\<open>NaN\<close>); the names so written are logged in
  the second component. On a number the last statement, \<^verbatim>\<open>count++\<close>, assigns a
  property of a primitive, which throws a \<^verbatim>\<open>TypeError\<close> in the strict mode that the
  module runs in.
\<close>

definition tallyName :: "real \<Rightarrow> string \<Rightarrow> scoreTable \<times> string list \<Rightarrow> exn + scoreTable \<times> string list" where
  "tallyName score k tw =
     (case lookupSlot (fst tw) k of
        OwnSlot \<Rightarrow> Inr ((fst tw)\<lparr>own := boardBump score k (own (fst tw))\<rparr>, snd tw)
      | ProtoSlot \<Rightarrow> Inr ((fst tw)\<lparr>proto := map_option (bump score) (proto (fst tw))\<rparr>, snd tw)
      | NumberSlot v \<Rightarrow> if v = 0 then Inr tw else Inl Thrown
      | BuiltinSlot \<Rightarrow> Inr (fst tw, snd tw @ [k])
      | NoSlot \<Rightarrow> Inr tw)"

text \<open>A loop whose body may throw: the first exception ends it.\<close>

fun foldE :: "('a \<Rightarrow> 's \<Rightarrow> exn + 's) \<Rightarrow> 'a list \<Rightarrow> 's \<Rightarrow> exn + 's" where
  "foldE f [] s = Inr s"
| "foldE f (x # xs) s = (case f x s of Inl e \<Rightarrow> Inl e | Inr s' \<Rightarrow> foldE f xs s')"

text \<open>
  The state of the loop over the interactions: the two tables, and the names of the
  inherited objects that were written to.
\<close>

record scorerState =
  topicScores :: scoreTable
  hashtagScores :: scoreTable
  inheritedWritten :: "string list"

definition tallyInteraction :: "interaction \<Rightarrow> scorerState \<Rightarrow> exn + scorerState" where
  "tallyInteraction ir s =
     (let score = reactionScore ir
      in case foldE (tallyName score) (orEmpty (topics ir)) (topicScores s, inheritedWritten s) of
           Inl e \<Rightarrow> Inl e
         | Inr tw \<Rightarrow>
             (case foldE (tallyName score) (orEmpty (hashtags ir)) (hashtagScores s, snd tw) of
                Inl e \<Rightarrow> Inl e
              | Inr hw \<Rightarrow>
                  Inr \<lparr>topicScores = fst tw, hashtagScores = fst hw, inheritedWritten = snd hw\<rparr>))"

definition finalTables :: "string list \<Rightarrow> string list \<Rightarrow> interaction list \<Rightarrow> exn + scorerState" where
  "finalTables modelTopics modelHashtags interactions =
     foldE tallyInteraction interactions
       \<lparr>topicScores = initTable modelTopics, hashtagScores = initTable modelHashtags,
        inheritedWritten = []\<rparr>"

text \<open>
  \<^verbatim>\<open>Object.entries\<close> lists the keys that are array indices first, in ascending
  numeric order, and then the other keys in insertion order.
\<close>

definition isDigit :: "char \<Rightarrow> bool" where
  "isDigit c = (c \<in> set ''0123456789'')"

definition decimalValue :: "string \<Rightarrow> int" where
  "decimalValue s = fold (\<lambda>c n. 10 * n + (of_char c - 48)) s 0"

definition isArrayIndex :: "string \<Rightarrow> bool" where
  "isArrayIndex s =
     (s \<noteq> [] \<and> list_all isDigit s \<and> (s = ''0'' \<or> hd s \<noteq> CHR ''0'')
      \<and> decimalValue s < 4294967295)"

definition objectEntries :: "(string \<times> 'v) list \<Rightarrow> (string \<times> 'v) list" where
  "objectEntries b =
     sort_key (\<lambda>p. decimalValue (fst p)) (filter (\<lambda>p. isArrayIndex (fst p)) b)
     @ filter (\<lambda>p. \<not> isArrayIndex (fst p)) b"

text \<open>
  The weight of one entry. \<^verbatim>\<open>positive\<close>, \<^verbatim>\<open>negative\<close> and the two counts are
  doubles that hold integers; every operation on them rounds.
\<close>

definition avgOf :: "tally \<Rightarrow> real" where
  "avgOf d = (if count d > 0 then fl (fl (positive d - negative d) / real (count d)) else 0)"

definition totalOf :: "tally \<Rightarrow> real" where
  "totalOf d = fl (positive d - negative d)"

definition compositeWeight :: "nat \<Rightarrow> tally \<Rightarrow> real" where
  "compositeWeight n d =
     fl (fl (avgOf d * fl (6 / 10)) + fl (fl (totalOf d / real (max 1 n)) * fl (4 / 10)))"

definition scoreBoard :: "nat \<Rightarrow> board \<Rightarrow> entry list" where
  "scoreBoard n b =
     sortDesc weight
       (filter (\<lambda>item. weight item \<noteq> 0)
          (map (\<lambda>(k, d). \<lparr>name = k, weight = compositeWeight n d\<rparr>) (objectEntries b)))"

definition topFive :: "entry list \<Rightarrow> entry list" where
  "topFive scored = take 5 (filter (\<lambda>item. weight item > fl (1 / 10)) scored)"

text \<open>
  \<^verbatim>\<open>analyzeWithoutModel\<close>: an exception of the loop leaves the function; otherwise it
  returns the two selections, taken from the own properties of the tables
  (\<^verbatim>\<open>Object.entries\<close>). The second component of the result is the list of inherited
  objects the call has written to.
\<close>

definition analyzeWithoutModel :: "string list \<Rightarrow> string list \<Rightarrow> interaction list \<Rightarrow> exn + interest_set \<times> string list" where
  "analyzeWithoutModel modelTopics modelHashtags interactions =
     (case finalTables modelTopics modelHashtags interactions of
        Inl e \<Rightarrow> Inl e
      | Inr s \<Rightarrow>
          Inr (\<lparr>set_topics = topFive (scoreBoard (length interactions) (own (topicScores s))),
                set_hashtags = topFive (scoreBoard (length interactions) (own (hashtagScores s)))\<rparr>,
               inheritedWritten s))"

section \<open>The analyzer\<close>

definition scoredFrom :: "string list \<Rightarrow> (real \<times> real \<times> real) list \<Rightarrow> entry list" where
  "scoredFrom names preds =
     sortDesc weight
       (map (\<lambda>(n, p). \<lparr>name = n, weight = snd (snd p) - fst p\<rparr>) (zip names preds))"

definition selectTop :: "entry list \<Rightarrow> entry list" where
  "selectTop scored =
     filter (\<lambda>e. weight e > 1 / 10) (take (findNaturalSplit scored (1 / 10) weight) scored)"

definition hashtagInputs :: "string list \<Rightarrow> string list \<Rightarrow> interaction list \<Rightarrow> nat list list" where
  "hashtagInputs modelHashtags modelTopics interactions =
     map (\<lambda>h. map (\<lambda>t. if list_ex (\<lambda>ir. h \<in> set (orEmpty (hashtags ir)) \<and> t \<in> set (orEmpty (topics ir)))
                                interactions
                     then 1 else 0) modelTopics) modelHashtags"

definition topicInputs :: "nat \<Rightarrow> nat list list" where
  "topicInputs n = map (\<lambda>i. map (\<lambda>j. if i = j then 1 else 0) [0..<n]) [0..<n]"

text \<open>
  The model path, after \<^verbatim>\<open>await loadModel(false)\<close>. A null model, a throwing
  prediction or a missing prediction row rejects the returned promise.
\<close>

definition analyzeWithModel :: "'m tf \<Rightarrow> 'm model_state \<Rightarrow> interaction list \<Rightarrow> interest_set settled" where
  "analyzeWithModel env st interactions =
     (case tfModel st of
        None \<Rightarrow> Rejected
      | Some m \<Rightarrow>
          (case predict env m (topicInputs (length (MODEL_TOPICS st))) of
             None \<Rightarrow> Rejected
           | Some topicPreds \<Rightarrow>
               if length topicPreds < length (MODEL_TOPICS st) then Rejected
               else
                 (case predict env m (hashtagInputs (MODEL_HASHTAGS st) (MODEL_TOPICS st) interactions) of
                    None \<Rightarrow> Rejected
                  | Some hashtagPreds \<Rightarrow>
                      if length hashtagPreds < length (MODEL_HASHTAGS st) then Rejected
                      else Resolved
                        \<lparr>set_topics = selectTop (scoredFrom (MODEL_TOPICS st) topicPreds),
                         set_hashtags = selectTop (scoredFrom (MODEL_HASHTAGS st) hashtagPreds)\<rparr>)))"

text \<open>
  \<^verbatim>\<open>analyzeInteractions\<close>, run to its end with nothing interleaved; \<open>None\<close> when
  it waits on a training promise that nobody resolves. An exception of the rule-based
  scorer rejects the returned promise.
\<close>

definition analyzeInteractions :: "'m tf \<Rightarrow> 'm model_state \<Rightarrow> interaction list \<Rightarrow> ('m model_state \<times> interest_set settled) option" where
  "analyzeInteractions env st interactions =
     (if MODEL_TOPICS st = [] then Some (st, Resolved emptyInterestSet)
      else if length interactions < MIN_INTERACTIONS then Some (st, Resolved emptyInterestSet)
      else if \<not> modelTrained st
      then Some (st, case analyzeWithoutModel (MODEL_TOPICS st) (MODEL_HASHTAGS st) interactions of
                       Inl e \<Rightarrow> Rejected
                     | Inr r \<Rightarrow> Resolved (fst r))
      else
        (case loadModel env False st of
           (st', LoadAwaitPromise) \<Rightarrow> None
         | (st', LoadReturned) \<Rightarrow> Some (st', analyzeWithModel env st' interactions)))"

section \<open>The content-request handler\<close>

record post =
  post_id :: "string option"
  post_topics :: "string list option"
  post_hashtags :: "string list option"

text \<open>
  A parsed \<^verbatim>\<open>topics\<close> or \<^verbatim>\<open>hashtags\<close> parameter is an array whose items are
  objects \<^verbatim>\<open>{name, weight}\<close> or bare name strings.
\<close>

datatype interest = Weighted string real | Named string

fun isObject :: "interest \<Rightarrow> bool" where
  "isObject (Weighted n w) = True"
| "isObject (Named s) = False"

text \<open>
  The posts are objects compared by identity (\<^verbatim>\<open>filtered.includes(post)\<close>): each
  one is paired with its position in \<^verbatim>\<open>posts\<close>.
\<close>

type_synonym tagged = "nat \<times> post"

definition tagPosts :: "post list \<Rightarrow> tagged list" where
  "tagPosts posts = zip [0..<length posts] posts"

text \<open>\<^verbatim>\<open>parseInt(req.query.limit) || 10\<close>, with \<open>None\<close> for \<^verbatim>\<open>NaN\<close>.\<close>

definition effectiveLimit :: "int option \<Rightarrow> int" where
  "effectiveLimit q = (case q of None \<Rightarrow> 10 | Some n \<Rightarrow> if n = 0 then 10 else n)"

text \<open>\<^verbatim>\<open>xs.slice(0, e)\<close>: a negative end counts from the end of the array.\<close>

definition jsSlice0 :: "'a list \<Rightarrow> int \<Rightarrow> 'a list" where
  "jsSlice0 xs e = (if e \<ge> 0 then take (nat e) xs else take (length xs - nat (- e)) xs)"

text \<open>
  The score of a post is a finite number, or something else: an infinity or \<^verbatim>\<open>NaN\<close>
  after an overflow, or a string once an object has been added to it. The largest
  double lies in the binade 1023: a result that rounds into a higher one overflows.
\<close>

datatype scoreValue = Number real | Other

definition toDouble :: "real \<Rightarrow> scoreValue" where
  "toDouble x = (if binade \<bar>fl x\<bar> \<ge> 1024 then Other else Number (fl x))"

text \<open>\<^verbatim>\<open>a + b\<close>: the rounded sum of two finite numbers; anything else is not one.\<close>

fun addValue :: "scoreValue \<Rightarrow> scoreValue \<Rightarrow> scoreValue" where
  "addValue (Number a) (Number b) = toDouble (a + b)"
| "addValue a b = Other"

text \<open>
  \<^verbatim>\<open>Object.fromEntries(us.map(t => [t.name, t.weight]))\<close>: a later entry replaces an
  earlier one of the same name; a bare string has neither field and is stored under
  the key \<^verbatim>\<open>undefined\<close> with no weight. Every name becomes an own property, also
  \<^verbatim>\<open>__proto__\<close>. The weight is the double that \<^verbatim>\<open>JSON.parse\<close> made of the
  decimal in the request.
\<close>

definition weightMap :: "interest list \<Rightarrow> (string \<rightharpoonup> scoreValue option)" where
  "weightMap us =
     fold (\<lambda>u m. case u of Weighted n w \<Rightarrow> m(n \<mapsto> Some (toDouble w))
                          | Named x \<Rightarrow> m(''undefined'' \<mapsto> None))
       us Map.empty"

text \<open>
  \<^verbatim>\<open>weightMap[t] || 0\<close>. The map is a plain object: a name that is not among its
  own properties but is a member of \<^verbatim>\<open>Object.prototype\<close> yields the inherited
  function (for \<^verbatim>\<open>__proto__\<close> the prototype object), which is truthy.
\<close>

definition lookupWeight :: "(string \<rightharpoonup> scoreValue option) \<Rightarrow> string \<Rightarrow> scoreValue" where
  "lookupWeight m t =
     (case m t of
        Some (Some v) \<Rightarrow> v
      | Some None \<Rightarrow> Number 0
      | None \<Rightarrow> if t \<in> set objectPrototypeNames then Other else Number 0)"

text \<open>\<^verbatim>\<open>ts.reduce((sum, t) => sum + (weightMap[t] || 0), 0)\<close>\<close>

definition namesScore :: "(string \<rightharpoonup> scoreValue option) \<Rightarrow> string list \<Rightarrow> scoreValue" where
  "namesScore m ts = fold (\<lambda>t sum. addValue sum (lookupWeight m t)) ts (Number 0)"

definition postScore :: "interest list \<Rightarrow> interest list \<Rightarrow> post \<Rightarrow> scoreValue" where
  "postScore userTopics userHashtags p =
     (let score1 = (case post_topics p of
                      None \<Rightarrow> Number 0
                    | Some ts \<Rightarrow>
                        if ts \<noteq> [] then addValue (Number 0) (namesScore (weightMap userTopics) ts)
                        else Number 0)
      in case post_hashtags p of
           None \<Rightarrow> score1
         | Some hs \<Rightarrow>
             if hs \<noteq> [] then addValue score1 (namesScore (weightMap userHashtags) hs)
             else score1)"

text \<open>
  The environment of a request: the orders the engine's sort leaves behind under the
  two random comparators (\<^verbatim>\<open>sort(() => 0.5 - Math.random())\<close>), and under the
  comparator \<^verbatim>\<open>b.score - a.score\<close> when some score is not a finite number, where
  the difference can be \<^verbatim>\<open>NaN\<close> and the order is left to the engine.
\<close>

record engine =
  shuffleNoise :: "tagged list \<Rightarrow> tagged list"
  shuffleBatch :: "tagged list \<Rightarrow> tagged list"
  garbledSort :: "(tagged \<times> scoreValue) list \<Rightarrow> (tagged \<times> scoreValue) list"

fun isNumber :: "scoreValue \<Rightarrow> bool" where
  "isNumber (Number x) = True"
| "isNumber Other = False"

fun numberOf :: "scoreValue \<Rightarrow> real" where
  "numberOf (Number x) = x"
| "numberOf Other = 0"

text \<open>\<^verbatim>\<open>.sort((a, b) => b.score - a.score)\<close>\<close>

definition sortScored :: "engine \<Rightarrow> (tagged \<times> scoreValue) list \<Rightarrow> (tagged \<times> scoreValue) list" where
  "sortScored eng scored =
     (if list_all (\<lambda>x. isNumber (snd x)) scored then sortDesc (\<lambda>x. numberOf (snd x)) scored
      else garbledSort eng scored)"

definition relevantCore :: "engine \<Rightarrow> post list \<Rightarrow> int \<Rightarrow> interest list \<Rightarrow> interest list \<Rightarrow> tagged list" where
  "relevantCore eng posts limit userTopics userHashtags =
     map fst
       (jsSlice0
          (sortScored eng (map (\<lambda>p. (p, postScore userTopics userHashtags (snd p))) (tagPosts posts)))
          (limit * 2))"

text \<open>\<^verbatim>\<open>Math.floor(limit * 0.3)\<close>\<close>

definition noiseCount :: "int \<Rightarrow> int" where
  "noiseCount limit = \<lfloor>fl (real_of_int limit * fl (3 / 10))\<rfloor>"

definition noiseFor :: "engine \<Rightarrow> post list \<Rightarrow> tagged list \<Rightarrow> int \<Rightarrow> tagged list" where
  "noiseFor eng posts filtered limit =
     jsSlice0 (shuffleNoise eng (filter (\<lambda>p. p \<notin> set filtered) (tagPosts posts))) (noiseCount limit)"

definition legacyMatch :: "interest list \<Rightarrow> interest list \<Rightarrow> post \<Rightarrow> bool" where
  "legacyMatch userTopics userHashtags p =
     ((userTopics \<noteq> [] \<and> list_ex (\<lambda>t. Named t \<in> set userTopics) (orEmpty (post_topics p)))
      \<or> (userHashtags \<noteq> [] \<and> list_ex (\<lambda>h. Named h \<in> set userHashtags) (orEmpty (post_hashtags p))))"

definition weightedRequest :: "interest list \<Rightarrow> interest list \<Rightarrow> bool" where
  "weightedRequest userTopics userHashtags =
     ((userTopics \<noteq> [] \<and> isObject (hd userTopics)) \<or> (userHashtags \<noteq> [] \<and> isObject (hd userHashtags)))"

definition filteredFor :: "engine \<Rightarrow> post list \<Rightarrow> int \<Rightarrow> interest list \<Rightarrow> interest list \<Rightarrow> tagged list" where
  "filteredFor eng posts limit userTopics userHashtags =
     (if weightedRequest userTopics userHashtags then
        (let filtered = relevantCore eng posts limit userTopics userHashtags
         in filtered @ noiseFor eng posts filtered limit)
      else if userTopics \<noteq> [] \<or> userHashtags \<noteq> [] then
        (let filtered = filter (\<lambda>p. legacyMatch userTopics userHashtags (snd p)) (tagPosts posts)
         in filtered @ noiseFor eng posts filtered limit)
      else tagPosts posts)"

record response =
  resp_posts :: "tagged list"
  resp_limit :: int
  resp_total :: nat

definition getPosts :: "engine \<Rightarrow> post list \<Rightarrow> int option \<Rightarrow> interest list \<Rightarrow> interest list \<Rightarrow> response" where
  "getPosts eng posts limitParam userTopics userHashtags =
     (let limit = effectiveLimit limitParam;
          filtered = filteredFor eng posts limit userTopics userHashtags;
          shuffled = shuffleBatch eng filtered;
          batch = jsSlice0 shuffled limit
      in \<lparr>resp_posts = batch, resp_limit = limit, resp_total = length posts\<rparr>)"

section \<open>The interaction store of the page script\<close>

text \<open>
  \<^verbatim>\<open>interactions\<close> is an object keyed by post id; \<^verbatim>\<open>lastViewedPostId\<close> and
  \<^verbatim>\<open>postViewStartTime\<close> are the view clock. The calls of \<^verbatim>\<open>Date.now()\<close>
  inside one handler read one clock value, which comes with the event. Training and
  the idle timer, which the handlers also start, do not write the store.
\<close>

record ui_state =
  interactions :: "string \<rightharpoonup> interaction"
  lastViewedPostId :: "string option"
  postViewStartTime :: "real option"






definition modifyInteraction :: "string \<Rightarrow> (interaction \<Rightarrow> interaction) \<Rightarrow> ui_state \<Rightarrow> ui_state" where
  "modifyInteraction k f st =
     (case interactions st k of
        None \<Rightarrow> st
      | Some r \<Rightarrow> st\<lparr>interactions := (interactions st)(k \<mapsto> f r)\<rparr>)"


definition setFlags :: "string \<Rightarrow> interaction \<Rightarrow> interaction" where
  "setFlags type r =
     (if type = ''interested'' then r\<lparr>interested := True, not_interested := False\<rparr>
      else if type = ''not_interested'' then r\<lparr>not_interested := True, interested := False\<rparr>
      else r)"









section \<open>Statements of the specification\<close>

text \<open>A record with its four boolean signals cleared.\<close>

definition clearSignals :: "interaction \<Rightarrow> interaction" where
  "clearSignals ir = ir\<lparr>liked := False, interested := False, not_interested := False, commented := False\<rparr>"





text \<open>The two flags stored for a key; a key without a record has neither flag set.\<close>

definition flagsOf :: "ui_state \<Rightarrow> string \<Rightarrow> bool \<times> bool" where
  "flagsOf st k =
     (case interactions st k of None \<Rightarrow> (False, False) | Some r \<Rightarrow> (interested r, not_interested r))"

text \<open>
  A selection \<open>R\<close> from the entries of a score table with weights \<open>w\<close>: its entries
  are distinct names of the table with their weights, all above 0.1 (the double), in
  descending order, at most five, and a name above 0.1 is left out only when five
  entries at least as heavy are in.
\<close>

definition topSelection :: "string list \<Rightarrow> (string \<Rightarrow> real) \<Rightarrow> entry list \<Rightarrow> bool" where
  "topSelection keys w R =
     ((\<forall>e \<in> set R. name e \<in> set keys \<and> weight e = w (name e) \<and> weight e > fl (1 / 10))
      \<and> sorted_wrt (\<lambda>a b. weight a \<ge> weight b) R
      \<and> length R \<le> 5
      \<and> distinct (map name R)
      \<and> (\<forall>k \<in> set keys. w k > fl (1 / 10) \<and> k \<notin> name ` set R \<longrightarrow>
            length R = 5 \<and> (\<forall>e \<in> set R. w k \<le> weight e)))"

text \<open>
  The weight of the statement, 0.6 avg + 0.4 (total / max(1, number of interactions)),
  each operation rounded to a double.
\<close>

definition statedWeight :: "nat \<Rightarrow> tally \<Rightarrow> real" where
  "statedWeight n d =
     (let avg = (if count d > 0 then fl (fl (positive d - negative d) / real (count d)) else 0);
          total = fl (positive d - negative d)
      in fl (fl (fl (6 / 10) * avg) + fl (fl (4 / 10) * fl (total / real (max 1 n)))))"

text \<open>The tally stored under a name of a table, and the zero tally for any other name.\<close>

definition tallyOf :: "board \<Rightarrow> string \<Rightarrow> tally" where
  "tallyOf b k = (case map_of b k of None \<Rightarrow> zeroTally | Some d \<Rightarrow> d)"

text \<open>
  The weight a request gives to a name: that of the last item stored under the name, and
  0 when there is none or when that item carries no weight. A weighted item is stored
  under its name, a bare string under \<^verbatim>\<open>undefined\<close>.
\<close>

fun itemKey :: "interest \<Rightarrow> string" where
  "itemKey (Weighted n w) = n"
| "itemKey (Named x) = ''undefined''"

fun itemWeight :: "interest \<Rightarrow> real" where
  "itemWeight (Weighted n w) = fl w"
| "itemWeight (Named x) = 0"

definition matchedWeight :: "interest list \<Rightarrow> string \<Rightarrow> real" where
  "matchedWeight us t =
     (case find (\<lambda>u. itemKey u = t) (rev us) of None \<Rightarrow> 0 | Some u \<Rightarrow> itemWeight u)"

text \<open>A sum taken from left to right, rounded after every addition.\<close>

definition roundedSum :: "real list \<Rightarrow> real" where
  "roundedSum ws = fold (\<lambda>w sum. fl (sum + w)) ws 0"

text \<open>
  The score of a post: its matched topic weights plus its matched hashtag weights. A
  list that is absent or empty adds nothing.
\<close>

definition statedScore :: "interest list \<Rightarrow> interest list \<Rightarrow> post \<Rightarrow> real" where
  "statedScore userTopics userHashtags p =
     (let topicSum = (if orEmpty (post_topics p) = [] then 0
                      else fl (roundedSum (map (matchedWeight userTopics) (orEmpty (post_topics p)))))
      in if orEmpty (post_hashtags p) = [] then topicSum
         else fl (topicSum
                  + roundedSum (map (matchedWeight userHashtags) (orEmpty (post_hashtags p)))))"

text \<open>The candidates in the order the handler sorts them in, before it takes the top.\<close>

definition ranked :: "post list \<Rightarrow> interest list \<Rightarrow> interest list \<Rightarrow> tagged list" where
  "ranked posts ut uh =
     map fst
       (sortDesc (\<lambda>x. numberOf (snd x))
          (map (\<lambda>p. (p, postScore ut uh (snd p))) (tagPosts posts)))"

section \<open>Concrete inputs\<close>

definition c4_items :: "entry list" where
  "c4_items = [\<lparr>name = ''a'', weight = 9 / 10\<rparr>, \<lparr>name = ''b'', weight = 85 / 100\<rparr>,
               \<lparr>name = ''c'', weight = 3 / 10\<rparr>, \<lparr>name = ''d'', weight = 28 / 100\<rparr>]"

text \<open>A record with no signal set, viewed for three quarters of its duration.\<close>

definition viewedRecord :: interaction where
  "viewedRecord =
     \<lparr>postId = Some ''p1'', topics = Some [''sports''], hashtags = Some [''#goal''], liked = False,
      interested = False, not_interested = False, commented = False, timeSpentMs = Some 7500,
      duration = Some 10000, timestamp = 0\<rparr>"

definition likedRecord :: interaction where
  "likedRecord = viewedRecord\<lparr>liked := True\<rparr>"


text \<open>A library stub: models are numbered, fitting succeeds, every prediction is the same row.\<close>

definition stubTf :: "nat tf" where
  "stubTf = \<lparr>build = (\<lambda>n. Built n), fit = (\<lambda>m xs ys. Some (m + 1)),
             predict = (\<lambda>m rows. Some (map (\<lambda>r. (1 / 10, 2 / 10, 7 / 10)) rows))\<rparr>"

definition sportsState :: "nat model_state" where
  "sportsState =
     \<lparr>tfModel = None, modelTrained = False, modelTraining = False, modelTrainingPromise = None,
      MODEL_TOPICS = [''sports''], MODEL_HASHTAGS = [''#goal'']\<rparr>"



text \<open>
  Ten records over the vocabulary sports, politics: five liked posts on sports (which
  also carry the unseen topic cooking) and five posts on politics marked not interesting.
\<close>

definition sportsFan :: interaction where
  "sportsFan = viewedRecord\<lparr>liked := True, topics := Some [''sports'', ''cooking'']\<rparr>"

definition politicsFoe :: interaction where
  "politicsFoe =
     viewedRecord\<lparr>not_interested := True, topics := Some [''politics''], hashtags := Some [''#vote'']\<rparr>"

definition mixedHistory :: "interaction list" where
  "mixedHistory =
     [sportsFan, politicsFoe, sportsFan, politicsFoe, sportsFan, politicsFoe, sportsFan, politicsFoe,
      sportsFan, politicsFoe]"


text \<open>
  The state after the model was rebuilt for a first request to train, and the state
  while that request is suspended in \<^verbatim>\<open>fit\<close>.
\<close>

definition loadedState :: "nat model_state" where
  "loadedState = sportsState\<lparr>tfModel := Some 1\<rparr>"

definition busyState :: "nat model_state" where
  "busyState = loadedState\<lparr>modelTraining := True, modelTrainingPromise := Some ()\<rparr>"

text \<open>
  Four posts, a request that weighs sports and the hashtag vote, and the two shuffles
  taken as a reversal and a rotation.
\<close>

definition fourPosts :: "post list" where
  "fourPosts =
     [\<lparr>post_id = Some ''p1'', post_topics = Some [''sports''], post_hashtags = Some [''#goal'']\<rparr>,
      \<lparr>post_id = Some ''p2'', post_topics = Some [''politics''], post_hashtags = Some [''#vote'']\<rparr>,
      \<lparr>post_id = Some ''p3'', post_topics = Some [''sports'', ''politics''], post_hashtags = None\<rparr>,
      \<lparr>post_id = Some ''p4'', post_topics = Some [''cooking''], post_hashtags = Some []\<rparr>]"

definition sportsRequest :: "interest list" where
  "sportsRequest = [Weighted ''sports'' 2]"

definition voteRequest :: "interest list" where
  "voteRequest = [Weighted ''#vote'' (1 / 2)]"

text \<open>
  Ten liked records on the topic \<^verbatim>\<open>__proto__\<close>, and ten on the topic
  \<^verbatim>\<open>constructor\<close>.
\<close>

definition protoHistory :: "interaction list" where
  "protoHistory = replicate 10 (likedRecord\<lparr>topics := Some [''__proto__''], hashtags := None\<rparr>)"

definition constructorHistory :: "interaction list" where
  "constructorHistory = replicate 10 (likedRecord\<lparr>topics := Some [''constructor''], hashtags := None\<rparr>)"

text \<open>Ten liked records that name the topic \<^verbatim>\<open>__proto__\<close> and then the topic \<^verbatim>\<open>count\<close>.\<close>

definition countHistory :: "interaction list" where
  "countHistory = replicate 10 (likedRecord\<lparr>topics := Some [''__proto__'', ''count''], hashtags := None\<rparr>)"


text \<open>
  An engine whose sort leaves the candidates reversed under a random comparator for
  the noise, rotated for the batch, and untouched when a score is not a number.
\<close>

definition someEngine :: engine where
  "someEngine = \<lparr>shuffleNoise = rev, shuffleBatch = rotate1, garbledSort = (\<lambda>xs. xs)\<rparr>"

text \<open>Nine posts, and a request with the weights 0.1 and 0.2 for two topics and 0.3 for a third.\<close>

definition ninePosts :: "post list" where
  "ninePosts =
     [\<lparr>post_id = Some ''q1'', post_topics = Some [''c''], post_hashtags = None\<rparr>,
      \<lparr>post_id = Some ''q2'', post_topics = Some [''a'', ''b''], post_hashtags = None\<rparr>,
      \<lparr>post_id = Some ''q3'', post_topics = Some [''cooking''], post_hashtags = Some []\<rparr>,
      \<lparr>post_id = Some ''q4'', post_topics = Some [''a''], post_hashtags = None\<rparr>,
      \<lparr>post_id = Some ''q5'', post_topics = None, post_hashtags = None\<rparr>,
      \<lparr>post_id = Some ''q6'', post_topics = Some [''b''], post_hashtags = None\<rparr>,
      \<lparr>post_id = Some ''q7'', post_topics = Some [], post_hashtags = Some [''#x'']\<rparr>,
      \<lparr>post_id = Some ''q8'', post_topics = Some [''travel''], post_hashtags = None\<rparr>,
      \<lparr>post_id = Some ''q9'', post_topics = Some [''music''], post_hashtags = None\<rparr>]"

definition tenthsRequest :: "interest list" where
  "tenthsRequest = [Weighted ''a'' (1 / 10), Weighted ''b'' (2 / 10), Weighted ''c'' (3 / 10)]"

text \<open>A post on the topic \<^verbatim>\<open>constructor\<close>, which no request lists.\<close>

definition constructorPost :: post where
  "constructorPost = \<lparr>post_id = Some ''p5'', post_topics = Some [''constructor''], post_hashtags = None\<rparr>"

section \<open>The short-circuit of the analyzer\<close>

text \<open>
  C1: with fewer than \<open>MIN_INTERACTIONS\<close> (10) interactions, and likewise with an empty
  topic vocabulary, \<open>analyzeInteractions\<close> resolves with the empty interest set (no
  topics, no hashtags) and leaves the state as it was: nothing is loaded or scored.
\<close>

theorem analyzeInteractions_short_circuit:
  "length inters < MIN_INTERACTIONS \<or> MODEL_TOPICS st = [] \<Longrightarrow>
   analyzeInteractions env st inters
     = Some (st, Resolved \<lparr>set_topics = [], set_hashtags = []\<rparr>)"
  by (auto simp: analyzeInteractions_def emptyInterestSet_def)

theorem analyzeInteractions_short_circuit_witness:
  "length (replicate 9 viewedRecord) < MIN_INTERACTIONS
   \<and> analyzeInteractions stubTf sportsState (replicate 9 viewedRecord)
       = Some (sportsState, Resolved \<lparr>set_topics = [], set_hashtags = []\<rparr>)
   \<and> MODEL_TOPICS (sportsState\<lparr>MODEL_TOPICS := []\<rparr>) = []
   \<and> analyzeInteractions stubTf (sportsState\<lparr>MODEL_TOPICS := []\<rparr>) (replicate 12 viewedRecord)
       = Some (sportsState\<lparr>MODEL_TOPICS := []\<rparr>, Resolved \<lparr>set_topics = [], set_hashtags = []\<rparr>)"
  using analyzeInteractions_short_circuit [of "replicate 9 viewedRecord" sportsState stubTf]
    analyzeInteractions_short_circuit
      [of "replicate 12 viewedRecord" "sportsState\<lparr>MODEL_TOPICS := []\<rparr>" stubTf]
  by (simp add: MIN_INTERACTIONS_def)

section \<open>The natural break of the example list\<close>

text \<open>
  C4: on the descending list a 0.9, b 0.85, c 0.3, d 0.28 with the minimum threshold 0.1,
  \<open>findNaturalSplit\<close> returns 2: the cut falls after index 1, at the gap of 0.55
  between 0.85 and 0.3, and the head it selects is a, b.
\<close>

theorem findNaturalSplit_example:
  "findNaturalSplit c4_items (1 / 10) weight = 2
   \<and> take (findNaturalSplit c4_items (1 / 10) weight) c4_items
       = [\<lparr>name = ''a'', weight = 9 / 10\<rparr>, \<lparr>name = ''b'', weight = 85 / 100\<rparr>]"
  by (simp add: findNaturalSplit_def c4_items_def jsDivGt_def)

section \<open>The reaction score of the rule-based scorer\<close>

text \<open>
  C2 as stated does not hold of \<open>analyzeWithoutModel\<close>. A record with no boolean
  signal, viewed for 7500 ms of 10000 ms, scores 1 and not (0.75 - 0.5) * 2 = 0.5; and the
  same view on a liked record adds its 1 to the boolean term 3.
\<close>

theorem reactionScore_not_time_fallback:
  "noSignal viewedRecord \<and> timeSpentMs viewedRecord = Some 7500 \<and> duration viewedRecord = Some 10000
   \<and> reactionScore viewedRecord \<noteq> (7500 / 10000 - 1 / 2) * 2
   \<and> \<not> noSignal likedRecord \<and> reactionScore likedRecord = booleanScore likedRecord + 1"
  by (simp add: noSignal_def viewedRecord_def likedRecord_def reactionScore_def booleanScore_def
      orElse_def WEIGHT_LIKED_def)

text \<open>The two tests on the time ratio exclude each other.\<close>

lemma step_term:
  "(if (r::real) > 7 / 10 then (1::real) else 0) - (if r < 2 / 10 then 1 else 0)
     = (if r > 7 / 10 then 1 else if r < 2 / 10 then - 1 else 0)"
  by auto

lemma booleanScore_noSignal: "noSignal ir \<Longrightarrow> booleanScore ir = 0"
  by (simp add: noSignal_def booleanScore_def)

lemma booleanScore_clearSignals: "booleanScore (clearSignals ir) = 0"
  by (simp add: clearSignals_def booleanScore_def)

lemma reactionScore_split: "reactionScore ir = booleanScore ir + reactionScore (clearSignals ir)"
proof (cases "timeSpentMs ir")
  case None
  have same: "timeSpentMs (clearSignals ir) = None"
    using None by (simp add: clearSignals_def)
  show ?thesis
    unfolding reactionScore_def None same booleanScore_clearSignals by simp
next
  case (Some t)
  have same: "timeSpentMs (clearSignals ir) = Some t" "duration (clearSignals ir) = duration ir"
    using Some by (simp_all add: clearSignals_def)
  show ?thesis
    unfolding reactionScore_def Some same booleanScore_clearSignals Let_def by simp
qed

text \<open>
  C2, amended: in the rule-based scorer a record with none of the four boolean signals
  set scores the step signal of its viewing time: +1 when
  \<^verbatim>\<open>timeSpentMs / (duration || 10000)\<close> exceeds 0.7, -1 when it is below 0.2, and 0
  otherwise, also when \<^verbatim>\<open>timeSpentMs\<close> is absent. The time term is added in every
  case: the score of any record is its boolean terms plus the score the same record has
  with its signals cleared.
\<close>

theorem reactionScore_step_signal:
  "(noSignal ir \<longrightarrow>
      reactionScore ir =
        (case timeSpentMs ir of
           None \<Rightarrow> 0
         | Some t \<Rightarrow> if t / orElse (duration ir) 10000 > 7 / 10 then 1
                     else if t / orElse (duration ir) 10000 < 2 / 10 then - 1 else 0))
   \<and> reactionScore ir = booleanScore ir + reactionScore (clearSignals ir)"
proof (intro conjI impI)
  assume quiet: "noSignal ir"
  show "reactionScore ir =
        (case timeSpentMs ir of
           None \<Rightarrow> 0
         | Some t \<Rightarrow> if t / orElse (duration ir) 10000 > 7 / 10 then 1
                     else if t / orElse (duration ir) 10000 < 2 / 10 then - 1 else 0)"
  proof (cases "timeSpentMs ir")
    case None
    then show ?thesis by (simp add: reactionScore_def booleanScore_noSignal [OF quiet])
  next
    case (Some t)
    show ?thesis
      unfolding reactionScore_def Some Let_def booleanScore_noSignal [OF quiet] option.case
      using step_term [of "t / orElse (duration ir) 10000"] by simp
  qed
next
  show "reactionScore ir = booleanScore ir + reactionScore (clearSignals ir)"
    by (rule reactionScore_split)
qed

theorem reactionScore_step_signal_witness:
  "noSignal viewedRecord \<and> reactionScore viewedRecord = 1
   \<and> reactionScore likedRecord = 3 + reactionScore (clearSignals likedRecord)"
  using reactionScore_step_signal [of viewedRecord] reactionScore_step_signal [of likedRecord]
  by (simp add: noSignal_def viewedRecord_def likedRecord_def orElse_def booleanScore_def WEIGHT_LIKED_def)

section \<open>The labels of the training examples\<close>









section \<open>The interest flags of the interaction store\<close>

text \<open>Each building block of the handlers keeps the flags exclusive and is traced on \<open>flagsOf\<close>.\<close>

lemma flagsOf_interactions_eq:
  "interactions st' = interactions st \<Longrightarrow> flagsOf st' k = flagsOf st k"
  by (simp add: flagsOf_def)








lemma modifyInteraction_at:
  "interactions st k = Some r \<Longrightarrow> interactions (modifyInteraction k f st) k = Some (f r)"
  by (simp add: modifyInteraction_def)

lemma modifyInteraction_view [simp]:
  "lastViewedPostId (modifyInteraction k f st) = lastViewedPostId st"
  "postViewStartTime (modifyInteraction k f st) = postViewStartTime st"
  by (simp_all add: modifyInteraction_def split: option.splits)


lemma setFlags_other:
  "type \<noteq> ''interested'' \<Longrightarrow> type \<noteq> ''not_interested'' \<Longrightarrow> setFlags type r = r"
  by (simp add: setFlags_def)




























section \<open>Sorting\<close>

lemma sortDesc_sorted: "sorted_wrt (\<lambda>a b. k a \<ge> k b) (sortDesc k xs)"
proof -
  have "sorted (map (\<lambda>x. - k x) (sort_key (\<lambda>x. - k x) xs))"
    by (rule sorted_sort_key)
  then show ?thesis by (simp add: sortDesc_def sorted_map)
qed

lemma sortDesc_set: "set (sortDesc k xs) = set xs"
  by (simp add: sortDesc_def)

lemma sortDesc_mset: "mset (sortDesc k xs) = mset xs"
  by (simp add: sortDesc_def)

lemma sortDesc_length: "length (sortDesc k xs) = length xs"
  by (simp add: sortDesc_def)

lemma sortDesc_distinct_map: "distinct (map f xs) \<Longrightarrow> distinct (map f (sortDesc k xs))"
  by (metis sortDesc_mset mset_map mset_eq_imp_distinct_iff)

lemma distinct_map_take: "distinct (map f xs) \<Longrightarrow> distinct (map f (take n xs))"
  by (metis distinct_take take_map)

lemma sorted_wrt_take_drop:
  assumes "sorted_wrt P xs" "x \<in> set (take n xs)" "y \<in> set (drop n xs)"
  shows "P x y"
proof -
  have "sorted_wrt P (take n xs @ drop n xs)" using assms(1) by simp
  then show ?thesis using assms(2,3) unfolding sorted_wrt_append by blast
qed

section \<open>The rule-based scorer\<close>

subsection \<open>The own properties of a score table\<close>

lemma boardSet_keys:
  "map fst (boardSet k v b) = (if k \<in> set (map fst b) then map fst b else map fst b @ [k])"
  by (auto simp: boardSet_def case_prod_unfold comp_def intro!: map_idI)

lemma boardBump_keys: "map fst (boardBump score k b) = map fst b"
  by (induction b) (auto simp: boardBump_def)

lemma tableSet_keys:
  "map fst (own (tableSet k t))
     = (if k = ''__proto__'' \<or> k \<in> set (map fst (own t)) then map fst (own t)
        else map fst (own t) @ [k])"
  by (simp add: tableSet_def boardSet_keys)

lemma fold_tableSet:
  "distinct (map fst (own t)) \<Longrightarrow>
   distinct (map fst (own (fold tableSet V t)))
   \<and> set (map fst (own (fold tableSet V t))) = set (map fst (own t)) \<union> (set V - {''__proto__''})"
proof (induction V arbitrary: t)
  case Nil
  then show ?case by simp
next
  case (Cons k V)
  have d: "distinct (map fst (own (tableSet k t)))"
    using Cons.prems by (simp add: tableSet_keys)
  have s: "set (map fst (own (tableSet k t))) = set (map fst (own t)) \<union> ({k} - {''__proto__''})"
    by (auto simp: tableSet_keys)
  from Cons.IH [OF d] s show ?case by auto
qed

lemma initTable_keys:
  "distinct (map fst (own (initTable V)))"
  "set (map fst (own (initTable V))) = set V - {''__proto__''}"
  using fold_tableSet [of emptyTable V] by (simp_all add: initTable_def emptyTable_def)

lemma fold_tableSet_proto:
  "''__proto__'' \<notin> set V \<Longrightarrow> proto (fold tableSet V t) = proto t"
  by (induction V arbitrary: t) (auto simp: tableSet_def)

lemma initTable_proto: "''__proto__'' \<notin> set V \<Longrightarrow> proto (initTable V) = None"
  by (simp add: initTable_def fold_tableSet_proto emptyTable_def)

lemma tallyName_keys:
  "tallyName score k tw = Inr tw' \<Longrightarrow> map fst (own (fst tw')) = map fst (own (fst tw))"
  by (auto simp: tallyName_def boardBump_keys split: slot.splits if_splits)

lemma tallyName_plain:
  "proto (fst tw) = None \<Longrightarrow> \<exists>tw'. tallyName score k tw = Inr tw' \<and> proto (fst tw') = None"
  by (cases tw) (auto simp: tallyName_def lookupSlot_def)

lemma foldE_preserves:
  assumes "\<And>x s s'. f x s = Inr s' \<Longrightarrow> P s \<Longrightarrow> P s'"
  shows "foldE f xs s = Inr s' \<Longrightarrow> P s \<Longrightarrow> P s'"
proof (induction xs arbitrary: s)
  case Nil
  then show ?case by simp
next
  case (Cons x xs)
  from Cons.prems(1) obtain s1 where s1: "f x s = Inr s1" "foldE f xs s1 = Inr s'"
    by (cases "f x s") simp_all
  from assms [OF s1(1) Cons.prems(2)] have "P s1" .
  with Cons.IH [OF s1(2)] show ?case .
qed

lemma foldE_returns:
  assumes "\<And>x s. P s \<Longrightarrow> \<exists>s'. f x s = Inr s' \<and> P s'"
  shows "P s \<Longrightarrow> \<exists>s'. foldE f xs s = Inr s' \<and> P s'"
proof (induction xs arbitrary: s)
  case Nil
  then show ?case by simp
next
  case (Cons x xs)
  from assms [OF Cons.prems, of x] obtain s1 where s1: "f x s = Inr s1" "P s1" by blast
  from Cons.IH [OF s1(2)] s1(1) show ?case by simp
qed

lemma tallyInteraction_keys:
  assumes "tallyInteraction ir s = Inr s'"
  shows "map fst (own (topicScores s')) = map fst (own (topicScores s))
         \<and> map fst (own (hashtagScores s')) = map fst (own (hashtagScores s))"
proof -
  let ?score = "reactionScore ir"
  from assms obtain tw where
    tw: "foldE (tallyName ?score) (orEmpty (topics ir)) (topicScores s, inheritedWritten s) = Inr tw"
    by (cases "foldE (tallyName ?score) (orEmpty (topics ir)) (topicScores s, inheritedWritten s)")
       (simp_all add: tallyInteraction_def Let_def)
  from assms tw obtain hw where
    hw: "foldE (tallyName ?score) (orEmpty (hashtags ir)) (hashtagScores s, snd tw) = Inr hw"
    by (cases "foldE (tallyName ?score) (orEmpty (hashtags ir)) (hashtagScores s, snd tw)")
       (simp_all add: tallyInteraction_def Let_def)
  from assms tw hw have s': "topicScores s' = fst tw" "hashtagScores s' = fst hw"
    by (auto simp: tallyInteraction_def Let_def)
  have t: "map fst (own (fst tw)) = map fst (own (topicScores s))"
    using foldE_preserves [where P = "\<lambda>x. map fst (own (fst x)) = map fst (own (topicScores s))",
        OF _ tw]
    by (simp add: tallyName_keys)
  have h: "map fst (own (fst hw)) = map fst (own (hashtagScores s))"
    using foldE_preserves [where P = "\<lambda>x. map fst (own (fst x)) = map fst (own (hashtagScores s))",
        OF _ hw]
    by (simp add: tallyName_keys)
  show ?thesis using t h s' by simp
qed

lemma finalTables_keys:
  assumes "finalTables V H inters = Inr s"
  shows "map fst (own (topicScores s)) = map fst (own (initTable V))
         \<and> map fst (own (hashtagScores s)) = map fst (own (initTable H))"
  using foldE_preserves [where P = "\<lambda>x. map fst (own (topicScores x)) = map fst (own (initTable V))
            \<and> map fst (own (hashtagScores x)) = map fst (own (initTable H))",
        OF _ assms [unfolded finalTables_def]]
  by (simp add: tallyInteraction_keys)

text \<open>With no \<^verbatim>\<open>__proto__\<close> in the vocabulary the loop never throws.\<close>

lemma tallyInteraction_plain:
  assumes "proto (topicScores s) = None \<and> proto (hashtagScores s) = None"
  shows "\<exists>s'. tallyInteraction ir s = Inr s'
            \<and> proto (topicScores s') = None \<and> proto (hashtagScores s') = None"
proof -
  let ?score = "reactionScore ir"
  from foldE_returns [where P = "\<lambda>x. proto (fst x) = None" and f = "tallyName ?score"
      and s = "(topicScores s, inheritedWritten s)" and xs = "orEmpty (topics ir)"]
  obtain tw where
    tw: "foldE (tallyName ?score) (orEmpty (topics ir)) (topicScores s, inheritedWritten s) = Inr tw"
      "proto (fst tw) = None"
    using assms tallyName_plain by auto
  from foldE_returns [where P = "\<lambda>x. proto (fst x) = None" and f = "tallyName ?score"
      and s = "(hashtagScores s, snd tw)" and xs = "orEmpty (hashtags ir)"]
  obtain hw where
    hw: "foldE (tallyName ?score) (orEmpty (hashtags ir)) (hashtagScores s, snd tw) = Inr hw"
      "proto (fst hw) = None"
    using assms tallyName_plain by auto
  show ?thesis using tw hw by (simp add: tallyInteraction_def Let_def)
qed

lemma finalTables_returns:
  assumes "''__proto__'' \<notin> set V" "''__proto__'' \<notin> set H"
  shows "\<exists>s. finalTables V H inters = Inr s"
proof -
  from foldE_returns [where P = "\<lambda>x. proto (topicScores x) = None \<and> proto (hashtagScores x) = None"
      and f = tallyInteraction and xs = inters
      and s = "\<lparr>topicScores = initTable V, hashtagScores = initTable H, inheritedWritten = []\<rparr>"]
  show ?thesis
    using assms tallyInteraction_plain by (auto simp: finalTables_def initTable_proto)
qed

lemma objectEntries_mset: "mset (objectEntries b) = mset b"
  by (simp add: objectEntries_def)

lemma objectEntries_set: "set (objectEntries b) = set b"
  by (metis objectEntries_mset set_mset_mset)

lemma objectEntries_distinct: "distinct (map fst b) \<Longrightarrow> distinct (map fst (objectEntries b))"
  by (metis objectEntries_mset mset_map mset_eq_imp_distinct_iff)

subsection \<open>The selection from a score table\<close>

lemma fl_tenth: "fl (1 / 10) = 3602879701896397 / 36028797018963968"
  by (simp add: fl_def binade.simps roundHalfEven_def Let_def)

lemma topFive_selection:
  assumes dist: "distinct (map name E)"
    and own: "\<forall>e \<in> set E. name e \<in> set V \<and> weight e = w (name e)"
    and all: "\<forall>k \<in> set V. \<exists>e \<in> set E. name e = k"
  shows "topSelection V w (topFive (sortDesc weight (filter (\<lambda>item. weight item \<noteq> 0) E)))"
proof -
  let ?S = "sortDesc weight (filter (\<lambda>item. weight item \<noteq> 0) E)"
  let ?L = "filter (\<lambda>item. weight item > fl (1 / 10)) ?S"
  let ?R = "take 5 ?L"
  have R: "topFive ?S = ?R" by (simp add: topFive_def)
  have setL: "set ?L = {e \<in> set E. weight e > fl (1 / 10)}"
    by (auto simp: sortDesc_set fl_tenth)
  have sub: "set ?R \<subseteq> set ?L" by (rule set_take_subset)
  have sortedL: "sorted_wrt (\<lambda>a b. weight a \<ge> weight b) ?L"
    by (intro sorted_wrt_filter sortDesc_sorted)
  have c1: "\<forall>e \<in> set ?R. name e \<in> set V \<and> weight e = w (name e) \<and> weight e > fl (1 / 10)"
    using sub setL own by blast
  have c2: "sorted_wrt (\<lambda>a b. weight a \<ge> weight b) ?R"
    using sortedL by (rule sorted_wrt_take)
  have c3: "length ?R \<le> 5" by simp
  have "distinct (map name (filter (\<lambda>item. weight item \<noteq> 0) E))"
    using dist by (rule distinct_map_filter)
  then have "distinct (map name ?S)" by (rule sortDesc_distinct_map)
  then have "distinct (map name ?L)" by (rule distinct_map_filter)
  then have c4: "distinct (map name ?R)" by (rule distinct_map_take)
  have c5: "\<forall>k \<in> set V. w k > fl (1 / 10) \<and> k \<notin> name ` set ?R \<longrightarrow>
              length ?R = 5 \<and> (\<forall>e \<in> set ?R. w k \<le> weight e)"
  proof (intro ballI impI)
    fix k
    assume k: "k \<in> set V" and "w k > fl (1 / 10) \<and> k \<notin> name ` set ?R"
    then have heavy: "w k > fl (1 / 10)" and out: "k \<notin> name ` set ?R" by simp_all
    from all k obtain e where e: "e \<in> set E" "name e = k" by blast
    with own have we: "weight e = w k" by simp
    with heavy e setL have inL: "e \<in> set ?L" by simp
    from out e have "e \<notin> set ?R" by blast
    with inL have inD: "e \<in> set (drop 5 ?L)"
      by (metis Un_iff append_take_drop_id set_append)
    then have "drop 5 ?L \<noteq> []" by auto
    then have len: "length ?R = 5" by simp
    have "\<forall>x \<in> set ?R. w k \<le> weight x"
      using sorted_wrt_take_drop [OF sortedL _ inD] we by fastforce
    with len show "length ?R = 5 \<and> (\<forall>e \<in> set ?R. w k \<le> weight e)" by simp
  qed
  show ?thesis
    unfolding R topSelection_def using c1 c2 c3 c4 c5 by blast
qed

lemma compositeWeight_stated: "compositeWeight n d = statedWeight n d"
  by (simp add: compositeWeight_def statedWeight_def avgOf_def totalOf_def Let_def mult.commute)

lemma tallyOf_entry: "distinct (map fst b) \<Longrightarrow> (k, d) \<in> set b \<Longrightarrow> tallyOf b k = d"
  by (simp add: tallyOf_def)

lemma scored_selection:
  assumes "distinct (map fst b)"
  shows "topSelection (map fst b) (\<lambda>k. statedWeight n (tallyOf b k)) (topFive (scoreBoard n b))"
proof -
  let ?E = "map (\<lambda>(k, d). \<lparr>name = k, weight = compositeWeight n d\<rparr>) (objectEntries b)"
  have names: "map name ?E = map fst (objectEntries b)"
    by (simp add: case_prod_unfold comp_def)
  have dist: "distinct (map name ?E)"
    unfolding names using assms by (rule objectEntries_distinct)
  have own: "\<forall>e \<in> set ?E. name e \<in> set (map fst b) \<and> weight e = statedWeight n (tallyOf b (name e))"
  proof
    fix e assume "e \<in> set ?E"
    then obtain k d where kd: "(k, d) \<in> set b" "e = \<lparr>name = k, weight = compositeWeight n d\<rparr>"
      by (auto simp: objectEntries_set)
    from tallyOf_entry [OF assms kd(1)] kd
    show "name e \<in> set (map fst b) \<and> weight e = statedWeight n (tallyOf b (name e))"
      by (force simp: compositeWeight_stated)
  qed
  have all: "\<forall>k \<in> set (map fst b). \<exists>e \<in> set ?E. name e = k"
  proof
    fix k assume "k \<in> set (map fst b)"
    then obtain d where "(k, d) \<in> set (objectEntries b)"
      by (auto simp: objectEntries_set)
    then have "\<lparr>name = k, weight = compositeWeight n d\<rparr> \<in> set ?E" by force
    then show "\<exists>e \<in> set ?E. name e = k" by force
  qed
  show ?thesis
    unfolding scoreBoard_def by (rule topFive_selection [OF dist own all])
qed

text \<open>
  What the scorer returns when its loop does not throw: from the entries that are own
  properties of each table, which are the names of the vocabulary other than
  \<^verbatim>\<open>__proto__\<close>, the selection by the stated weight of their tallies: entries of
  weight 0 are gone (every kept weight is above 0.1), the entries are in descending
  order of weight, there are at most five, and no entry above 0.1 is left out unless
  five entries at least as heavy are kept; topics and hashtags independently.
\<close>

lemma scorer_selection:
  assumes "finalTables V H inters = Inr s"
  shows "\<exists>R R'. analyzeWithoutModel V H inters
                  = Inr (\<lparr>set_topics = R, set_hashtags = R'\<rparr>, inheritedWritten s)
           \<and> topSelection (map fst (own (topicScores s)))
               (\<lambda>k. statedWeight (length inters) (tallyOf (own (topicScores s)) k)) R
           \<and> topSelection (map fst (own (hashtagScores s)))
               (\<lambda>k. statedWeight (length inters) (tallyOf (own (hashtagScores s)) k)) R'
           \<and> set (map fst (own (topicScores s))) = set V - {''__proto__''}
           \<and> set (map fst (own (hashtagScores s))) = set H - {''__proto__''}"
proof -
  note keys = finalTables_keys [OF assms]
  have dt: "distinct (map fst (own (topicScores s)))"
    using keys initTable_keys(1) [of V] by simp
  have dh: "distinct (map fst (own (hashtagScores s)))"
    using keys initTable_keys(1) [of H] by simp
  have kt: "set (map fst (own (topicScores s))) = set V - {''__proto__''}"
    using keys initTable_keys(2) [of V] by simp
  have kh: "set (map fst (own (hashtagScores s))) = set H - {''__proto__''}"
    using keys initTable_keys(2) [of H] by simp
  have run: "analyzeWithoutModel V H inters
      = Inr (\<lparr>set_topics = topFive (scoreBoard (length inters) (own (topicScores s))),
               set_hashtags = topFive (scoreBoard (length inters) (own (hashtagScores s)))\<rparr>,
             inheritedWritten s)"
    by (simp add: analyzeWithoutModel_def assms)
  have all: "analyzeWithoutModel V H inters
        = Inr (\<lparr>set_topics = topFive (scoreBoard (length inters) (own (topicScores s))),
                 set_hashtags = topFive (scoreBoard (length inters) (own (hashtagScores s)))\<rparr>,
               inheritedWritten s)
      \<and> topSelection (map fst (own (topicScores s)))
          (\<lambda>k. statedWeight (length inters) (tallyOf (own (topicScores s)) k))
          (topFive (scoreBoard (length inters) (own (topicScores s))))
      \<and> topSelection (map fst (own (hashtagScores s)))
          (\<lambda>k. statedWeight (length inters) (tallyOf (own (hashtagScores s)) k))
          (topFive (scoreBoard (length inters) (own (hashtagScores s))))
      \<and> set (map fst (own (topicScores s))) = set V - {''__proto__''}
      \<and> set (map fst (own (hashtagScores s))) = set H - {''__proto__''}"
    by (intro conjI run scored_selection [OF dt] scored_selection [OF dh] kt kh)
  show ?thesis
    by (rule exI [where x = "topFive (scoreBoard (length inters) (own (topicScores s)))"],
        rule exI [where x = "topFive (scoreBoard (length inters) (own (hashtagScores s)))"],
        rule all)
qed

text \<open>
  The order of the selection is that of the doubles. With ten interactions the tallies
  (5, 0, 2) and (17, 0, 10) both weigh 1.7 in exact arithmetic; in doubles the second
  comes out one unit in the last place higher, and its entry is returned first.
\<close>

lemma rounded_weights:
  "compositeWeight 10 \<lparr>positive = 5, negative = 0, count = 2\<rparr> = 7656119366529843 / 4503599627370496"
  "compositeWeight 10 \<lparr>positive = 17, negative = 0, count = 10\<rparr> = 1914029841632461 / 1125899906842624"
  by (simp_all add: compositeWeight_def avgOf_def totalOf_def fl_def binade.simps roundHalfEven_def
      Let_def)

lemma rounded_weights_order:
  "map name (topFive (scoreBoard 10 [(''x'', \<lparr>positive = 5, negative = 0, count = 2\<rparr>),
                                      (''y'', \<lparr>positive = 17, negative = 0, count = 10\<rparr>)]))
     = [''y'', ''x'']"
  by (simp add: topFive_def scoreBoard_def objectEntries_def isArrayIndex_def isDigit_def
      sortDesc_def rounded_weights fl_tenth)

subsection \<open>A vocabulary that holds the name of the prototype accessor\<close>

text \<open>
  C5 on the vocabulary \<^verbatim>\<open>['__proto__']\<close> and ten liked records of that topic. The
  assignment that should create the entry of the topic replaces the prototype of the
  table instead, and the loop tallies the ten records on that prototype: positive 40,
  negative 0, count 10, for which the stated weight is 4. The table has no entry of its
  own, and the scorer returns no topic, where the statement keeps the one entry of
  weight 4.
\<close>

theorem vocabulary_entry_lost:
  "finalTables [''__proto__''] [] protoHistory
     = Inr \<lparr>topicScores = \<lparr>own = [], proto = Some \<lparr>positive = 40, negative = 0, count = 10\<rparr>\<rparr>,
            hashtagScores = \<lparr>own = [], proto = None\<rparr>, inheritedWritten = []\<rparr>
   \<and> statedWeight (length protoHistory) \<lparr>positive = 40, negative = 0, count = 10\<rparr> = 4
   \<and> analyzeWithoutModel [''__proto__''] [] protoHistory
       = Inr (\<lparr>set_topics = [], set_hashtags = []\<rparr>, [])"
  by code_simp

subsection \<open>Names that are not in the vocabulary\<close>

text \<open>
  C10 on the vocabulary \<^verbatim>\<open>['sports']\<close> and ten liked records on the topic
  \<^verbatim>\<open>constructor\<close>, which is not in the vocabulary. The guard of the loop finds the
  function that every object inherits under that name, and for each of the ten records
  the tally statements run on it: they write \<^verbatim>\<open>positive\<close> and \<^verbatim>\<open>count\<close> on the
  global \<^verbatim>\<open>Object\<close> function, where the statement has the name neither scored nor
  counted. The returned interest set is empty.
\<close>

theorem unlisted_name_tallied:
  "lookupSlot (initTable [''sports'']) ''constructor'' = BuiltinSlot
   \<and> analyzeWithoutModel [''sports''] [''#goal''] constructorHistory
       = Inr (\<lparr>set_topics = [], set_hashtags = []\<rparr>, replicate 10 ''constructor'')"
  by code_simp

text \<open>
  With \<^verbatim>\<open>__proto__\<close> in the vocabulary, the name \<^verbatim>\<open>count\<close> of a record finds the
  count of the replaced prototype, a number, and the tally statement on it throws: the
  scorer returns nothing, and the promise of the analyzer is rejected.
\<close>

lemma unlisted_name_throws:
  "analyzeWithoutModel [''__proto__''] [] countHistory = Inl Thrown
   \<and> analyzeInteractions stubTf (sportsState\<lparr>MODEL_TOPICS := [''__proto__''], MODEL_HASHTAGS := []\<rparr>)
         countHistory
       = Some (sportsState\<lparr>MODEL_TOPICS := [''__proto__''], MODEL_HASHTAGS := []\<rparr>, Rejected)"
proof -
  have t: "analyzeWithoutModel [''__proto__''] [] countHistory = Inl Thrown"
    by code_simp
  have len: "length countHistory = 10" by (simp add: countHistory_def)
  show ?thesis
    by (simp add: t len analyzeInteractions_def sportsState_def MIN_INTERACTIONS_def)
qed

text \<open>
  Where no name of the vocabulary or of a record is inherited, the scorer returns, and
  has written to none of the inherited objects.
\<close>

lemma mixedHistory_tables:
  "finalTables [''sports'', ''politics''] [''#vote''] mixedHistory
     = Inr \<lparr>topicScores =
              \<lparr>own = [(''sports'', \<lparr>positive = 20, negative = 0, count = 5\<rparr>),
                      (''politics'', \<lparr>positive = 0, negative = 15, count = 5\<rparr>)],
               proto = None\<rparr>,
            hashtagScores =
              \<lparr>own = [(''#vote'', \<lparr>positive = 0, negative = 15, count = 5\<rparr>)], proto = None\<rparr>,
            inheritedWritten = []\<rparr>"
  by code_simp

lemma mixedHistory_weights:
  "compositeWeight 10 \<lparr>positive = 20, negative = 0, count = 5\<rparr> = 3602879701896397 / 1125899906842624"
  "compositeWeight 10 \<lparr>positive = 0, negative = 15, count = 5\<rparr> = - (5404319552844595 / 2251799813685248)"
  by (simp_all add: compositeWeight_def avgOf_def totalOf_def fl_def binade.simps roundHalfEven_def
      Let_def)

lemma mixedHistory_result:
  "analyzeWithoutModel [''sports'', ''politics''] [''#vote''] mixedHistory
     = Inr (\<lparr>set_topics = [\<lparr>name = ''sports'', weight = 3602879701896397 / 1125899906842624\<rparr>],
              set_hashtags = []\<rparr>, [])"
proof -
  have len: "length mixedHistory = 10" by (simp add: mixedHistory_def)
  show ?thesis
    unfolding analyzeWithoutModel_def mixedHistory_tables len
    by (simp add: topFive_def scoreBoard_def objectEntries_def isArrayIndex_def isDigit_def
        sortDesc_def mixedHistory_weights fl_tenth)
qed

section \<open>Failures during training\<close>



















section \<open>Requests to train while a run is in flight\<close>

lemma first_request_enters:
  "trainModel_enter stubTf sportsState mixedHistory = (loadedState, TrainAwaitLoad)"
  by (simp add: trainModel_enter_def loadModel_def loadModel_body_def loadModel_try_def
      stubTf_def sportsState_def loadedState_def mixedHistory_def MIN_INTERACTIONS_def)

lemma first_request_fits:
  "trainModel_loaded loadedState mixedHistory
     = (busyState, TrainAwaitFit 1 (fst (trainingRows [''sports''] mixedHistory))
                     (snd (trainingRows [''sports''] mixedHistory)))"
  by (simp add: trainModel_loaded_def loadedState_def busyState_def sportsState_def lastN_def
      mixedHistory_def sportsFan_def politicsFoe_def viewedRecord_def Let_def membership_def)

text \<open>
  C7 as stated does not hold: a second request made while the first is suspended in
  \<^verbatim>\<open>fit\<close>, with the flag set and the promise pending, returns at once. It does not
  wait for the promise.
\<close>

theorem second_request_does_not_wait:
  "trainModel_enter stubTf sportsState mixedHistory = (loadedState, TrainAwaitLoad)
   \<and> trainModel_loaded loadedState mixedHistory
       = (busyState, TrainAwaitFit 1 (fst (trainingRows [''sports''] mixedHistory))
                       (snd (trainingRows [''sports''] mixedHistory)))
   \<and> modelTraining busyState \<and> modelTrainingPromise busyState = Some ()
   \<and> trainModel_enter stubTf busyState mixedHistory = (busyState, TrainReturned)
   \<and> snd (trainModel_enter stubTf busyState mixedHistory) \<noteq> TrainAwaitPromise"
  by (simp add: first_request_enters first_request_fits)
     (simp add: trainModel_enter_def busyState_def)

text \<open>
  C7, amended: a request to train made while the training flag is set returns at once,
  leaves the state as it was and does not wait for the run in flight: it is dropped, so
  it starts no second run and no second update of the model parameters. It is
  \<open>loadModel\<close> that waits for the pending promise of the run in flight.
\<close>

theorem request_dropped_while_training:
  "modelTraining st \<Longrightarrow>
   trainModel_enter env st inters = (st, TrainReturned)
   \<and> trainModel env st inters = Some (st, Resolved ())
   \<and> (modelTrainingPromise st \<noteq> None \<longrightarrow> loadModel env force st = (st, LoadAwaitPromise))"
  by (simp add: trainModel_def trainModel_enter_def loadModel_def)

theorem request_dropped_while_training_witness:
  "modelTraining busyState
   \<and> trainModel_enter stubTf busyState mixedHistory = (busyState, TrainReturned)
   \<and> trainModel stubTf busyState mixedHistory = Some (busyState, Resolved ())
   \<and> modelTrainingPromise busyState \<noteq> None
   \<and> loadModel stubTf False busyState = (busyState, LoadAwaitPromise)"
proof -
  have busy: "modelTraining busyState" "modelTrainingPromise busyState \<noteq> None"
    by (simp_all add: busyState_def)
  from request_dropped_while_training [OF busy(1), of stubTf mixedHistory False] busy
  show ?thesis by simp
qed

text \<open>
  The flag is set only after \<^verbatim>\<open>await loadModel(true)\<close>. A second request made before
  the first one is resumed still finds the flag clear, and both reach \<^verbatim>\<open>fit\<close>.
\<close>

lemma requests_before_the_flag_overlap:
  "trainModel_enter stubTf sportsState mixedHistory = (loadedState, TrainAwaitLoad)
   \<and> trainModel_enter stubTf loadedState mixedHistory = (loadedState, TrainAwaitLoad)
   \<and> trainModel_loaded loadedState mixedHistory
       = (busyState, TrainAwaitFit 1 (fst (trainingRows [''sports''] mixedHistory))
                       (snd (trainingRows [''sports''] mixedHistory)))
   \<and> trainModel_loaded busyState mixedHistory
       = (busyState, TrainAwaitFit 1 (fst (trainingRows [''sports''] mixedHistory))
                       (snd (trainingRows [''sports''] mixedHistory)))"
proof -
  have again: "trainModel_enter stubTf loadedState mixedHistory = (loadedState, TrainAwaitLoad)"
    by (simp add: trainModel_enter_def loadModel_def loadModel_body_def loadModel_try_def
        stubTf_def sportsState_def loadedState_def mixedHistory_def MIN_INTERACTIONS_def)
  have both: "trainModel_loaded busyState mixedHistory
       = (busyState, TrainAwaitFit 1 (fst (trainingRows [''sports''] mixedHistory))
                       (snd (trainingRows [''sports''] mixedHistory)))"
    by (simp add: trainModel_loaded_def loadedState_def busyState_def sportsState_def lastN_def
        mixedHistory_def sportsFan_def politicsFoe_def viewedRecord_def Let_def membership_def)
  show ?thesis
    using first_request_enters first_request_fits again both by simp
qed

section \<open>The weighted path of the content-request handler\<close>

subsection \<open>The score of a post\<close>

lemma weightMap_snoc:
  "weightMap (us @ [u]) =
     (case u of Weighted n w \<Rightarrow> (weightMap us)(n \<mapsto> Some (toDouble w))
              | Named x \<Rightarrow> (weightMap us)(''undefined'' \<mapsto> None))"
  by (simp add: weightMap_def split: interest.splits)

lemma weightMap_find:
  "weightMap us t =
     (case find (\<lambda>u. itemKey u = t) (rev us) of
        None \<Rightarrow> None
      | Some (Weighted n w) \<Rightarrow> Some (Some (toDouble w))
      | Some (Named x) \<Rightarrow> Some None)"
proof (induction us rule: rev_induct)
  case Nil
  then show ?case by (simp add: weightMap_def)
next
  case (snoc u us)
  then show ?case by (cases u) (simp_all add: weightMap_snoc)
qed

lemma toDouble_Number: "toDouble x = Number y \<Longrightarrow> y = fl x"
  by (simp add: toDouble_def split: if_splits)

lemma toDouble_zero: "toDouble 0 = Number 0"
  by (simp add: toDouble_def fl_def binade.simps)

lemma addValue_Number:
  "addValue a b = Number y \<Longrightarrow> \<exists>x z. a = Number x \<and> b = Number z \<and> y = fl (x + z)"
  by (cases a; cases b) (simp_all add: toDouble_Number)

lemma lookupWeight_matched:
  "lookupWeight (weightMap us) t = Number x \<Longrightarrow> x = matchedWeight us t"
proof (cases "find (\<lambda>u. itemKey u = t) (rev us)")
  case None
  assume "lookupWeight (weightMap us) t = Number x"
  then show ?thesis
    using None by (simp add: lookupWeight_def weightMap_find matchedWeight_def split: if_splits)
next
  case (Some u)
  assume "lookupWeight (weightMap us) t = Number x"
  then show ?thesis
    using Some by (cases u) (simp_all add: lookupWeight_def weightMap_find matchedWeight_def toDouble_Number)
qed

lemma lookupWeight_unmatched:
  assumes "t \<notin> itemKey ` set us" "t \<notin> set objectPrototypeNames"
  shows "lookupWeight (weightMap us) t = Number 0"
proof -
  from assms(1) have "find (\<lambda>u. itemKey u = t) (rev us) = None"
    by (auto simp: find_None_iff)
  then show ?thesis using assms(2) by (simp add: lookupWeight_def weightMap_find)
qed

lemma namesScore_snoc:
  "namesScore m (ts @ [t]) = addValue (namesScore m ts) (lookupWeight m t)"
  by (simp add: namesScore_def)

lemma roundedSum_snoc: "roundedSum (ws @ [w]) = fl (roundedSum ws + w)"
  by (simp add: roundedSum_def)

lemma namesScore_matched:
  "namesScore (weightMap us) ts = Number y \<Longrightarrow> y = roundedSum (map (matchedWeight us) ts)"
proof (induction ts arbitrary: y rule: rev_induct)
  case Nil
  then show ?case by (simp add: namesScore_def roundedSum_def)
next
  case (snoc t ts)
  from snoc.prems obtain x z where
    parts: "namesScore (weightMap us) ts = Number x" "lookupWeight (weightMap us) t = Number z"
      "y = fl (x + z)"
    unfolding namesScore_snoc using addValue_Number by blast
  from snoc.IH [OF parts(1)] lookupWeight_matched [OF parts(2)] parts(3)
  show ?case by (simp add: roundedSum_snoc)
qed

lemma namesScore_unmatched:
  assumes "\<forall>t \<in> set ts. t \<notin> itemKey ` set us \<and> t \<notin> set objectPrototypeNames"
  shows "namesScore (weightMap us) ts = Number 0"
  using assms
proof (induction ts rule: rev_induct)
  case Nil
  then show ?case by (simp add: namesScore_def)
next
  case (snoc t ts)
  then show ?case
    by (simp add: namesScore_snoc lookupWeight_unmatched toDouble_zero)
qed

lemma postScore_stated:
  assumes "postScore ut uh p = Number y"
  shows "y = statedScore ut uh p"
proof -
  let ?T = "orEmpty (post_topics p)" and ?H = "orEmpty (post_hashtags p)"
  define s1 where "s1 = (if ?T = [] then Number 0
                         else addValue (Number 0) (namesScore (weightMap ut) ?T))"
  define r1 where "r1 = (if ?T = [] then 0 else fl (roundedSum (map (matchedWeight ut) ?T)))"
  have split: "postScore ut uh p
      = (if ?H = [] then s1 else addValue s1 (namesScore (weightMap uh) ?H))"
    by (cases "post_topics p"; cases "post_hashtags p")
       (simp_all add: postScore_def s1_def orEmpty_def Let_def)
  have stated: "statedScore ut uh p
      = (if ?H = [] then r1 else fl (r1 + roundedSum (map (matchedWeight uh) ?H)))"
    by (simp add: statedScore_def r1_def Let_def)
  have first: "s1 = Number x \<Longrightarrow> x = r1" for x
  proof (cases "?T = []")
    case True
    assume "s1 = Number x"
    then show ?thesis using True by (simp add: s1_def r1_def)
  next
    case False
    assume "s1 = Number x"
    then have "addValue (Number 0) (namesScore (weightMap ut) ?T) = Number x"
      using False by (simp add: s1_def)
    then obtain z where z: "namesScore (weightMap ut) ?T = Number z" "x = fl (0 + z)"
      using addValue_Number by blast
    from namesScore_matched [OF z(1)] z(2) show ?thesis using False by (simp add: r1_def)
  qed
  show ?thesis
  proof (cases "?H = []")
    case True
    with assms split have "s1 = Number y" by simp
    from first [OF this] show ?thesis using True stated by simp
  next
    case False
    with assms split have "addValue s1 (namesScore (weightMap uh) ?H) = Number y" by simp
    then obtain x z where xz: "s1 = Number x" "namesScore (weightMap uh) ?H = Number z"
        "y = fl (x + z)"
      using addValue_Number by blast
    from first [OF xz(1)] namesScore_matched [OF xz(2)] xz(3)
    show ?thesis using False stated by simp
  qed
qed

lemma postScore_unmatched:
  assumes "\<forall>t \<in> set (orEmpty (post_topics p)). t \<notin> itemKey ` set ut \<and> t \<notin> set objectPrototypeNames"
    and "\<forall>h \<in> set (orEmpty (post_hashtags p)). h \<notin> itemKey ` set uh \<and> h \<notin> set objectPrototypeNames"
  shows "postScore ut uh p = Number 0"
proof -
  have t: "namesScore (weightMap ut) (orEmpty (post_topics p)) = Number 0"
    using assms(1) by (rule namesScore_unmatched)
  have h: "namesScore (weightMap uh) (orEmpty (post_hashtags p)) = Number 0"
    using assms(2) by (rule namesScore_unmatched)
  show ?thesis
    using t h
    by (cases "post_topics p"; cases "post_hashtags p")
       (simp_all add: postScore_def orEmpty_def Let_def toDouble_zero)
qed

subsection \<open>The candidates and their order\<close>

lemma tagPosts_distinct: "distinct (tagPosts posts)"
  by (simp add: tagPosts_def distinct_zipI1)

lemma tagPosts_length: "length (tagPosts posts) = length posts"
  by (simp add: tagPosts_def)

lemma tagPosts_snd: "x \<in> set (tagPosts posts) \<Longrightarrow> snd x \<in> set posts"
  unfolding tagPosts_def by (cases x) (auto dest: set_zip_rightD)

lemma jsSlice0_take: "0 \<le> e \<Longrightarrow> jsSlice0 xs e = take (nat e) xs"
  by (simp add: jsSlice0_def)

lemma sortScored_numbers:
  assumes "list_all (\<lambda>x. isNumber (postScore ut uh x)) posts"
  shows "sortScored eng (map (\<lambda>p. (p, postScore ut uh (snd p))) (tagPosts posts))
           = sortDesc (\<lambda>x. numberOf (snd x)) (map (\<lambda>p. (p, postScore ut uh (snd p))) (tagPosts posts))"
proof -
  have "list_all (\<lambda>x. isNumber (snd x)) (map (\<lambda>p. (p, postScore ut uh (snd p))) (tagPosts posts))"
    using assms tagPosts_snd [of _ posts] by (auto simp: list_all_iff)
  then show ?thesis by (simp add: sortScored_def)
qed

lemma ranked_mset: "mset (ranked posts ut uh) = mset (tagPosts posts)"
proof -
  have "mset (ranked posts ut uh)
          = image_mset fst (mset (map (\<lambda>p. (p, postScore ut uh (snd p))) (tagPosts posts)))"
    by (simp add: ranked_def sortDesc_mset)
  also have "\<dots> = mset (tagPosts posts)"
    by (simp add: image_mset.compositionality comp_def)
  finally show ?thesis .
qed

lemma ranked_sorted:
  "sorted_wrt (\<lambda>a b. numberOf (postScore ut uh (snd a)) \<ge> numberOf (postScore ut uh (snd b)))
     (ranked posts ut uh)"
proof -
  let ?scored = "map (\<lambda>p. (p, postScore ut uh (snd p))) (tagPosts posts)"
  let ?S = "sortDesc (\<lambda>x. numberOf (snd x)) ?scored"
  have own: "\<forall>x \<in> set ?S. snd x = postScore ut uh (snd (fst x))"
    by (auto simp: sortDesc_set)
  have "sorted_wrt (\<lambda>a b. numberOf (snd a) \<ge> numberOf (snd b)) ?S"
    by (rule sortDesc_sorted)
  then have "sorted_wrt (\<lambda>a b. numberOf (postScore ut uh (snd (fst a)))
                             \<ge> numberOf (postScore ut uh (snd (fst b)))) ?S"
    by (rule sorted_wrt_mono_rel [rotated]) (use own in auto)
  then show ?thesis
    by (simp add: ranked_def sorted_wrt_map)
qed

lemma relevantCore_take:
  assumes "list_all (\<lambda>x. isNumber (postScore ut uh x)) posts" "0 \<le> limit"
  shows "relevantCore eng posts limit ut uh = take (nat (limit * 2)) (ranked posts ut uh)"
  unfolding relevantCore_def sortScored_numbers [OF assms(1)] ranked_def
  using assms(2) by (simp add: jsSlice0_take take_map)

lemma ranked_distinct: "distinct (ranked posts ut uh)"
  using ranked_mset [of posts ut uh] tagPosts_distinct [of posts]
  by (metis mset_eq_imp_distinct_iff)

lemma ranked_set: "set (ranked posts ut uh) = set (tagPosts posts)"
  using ranked_mset [of posts ut uh] by (metis set_mset_mset)

lemma ranked_length: "length (ranked posts ut uh) = length posts"
  using ranked_mset [of posts ut uh] by (metis size_mset tagPosts_length)

subsection \<open>Noise and the batch\<close>

lemma excluded_length:
  assumes "distinct xs" "distinct ys" "set ys \<subseteq> set xs"
  shows "length (filter (\<lambda>p. p \<notin> set ys) xs) = length xs - length ys"
proof -
  have "distinct (filter (\<lambda>p. p \<notin> set ys) xs)" using assms(1) by simp
  then have "length (filter (\<lambda>p. p \<notin> set ys) xs) = card (set xs - set ys)"
    by (metis distinct_card set_filter set_diff_eq)
  also have "\<dots> = card (set xs) - card (set ys)"
    using assms(3) by (simp add: card_Diff_subset)
  finally show ?thesis using assms(1,2) by (simp add: distinct_card)
qed

lemma shuffled_take:
  assumes "mset ys = mset xs"
  shows "set (take k ys) \<subseteq> set xs" "distinct xs \<Longrightarrow> distinct (take k ys)"
    "length (take k ys) = min k (length xs)" "mset (take k ys) \<subseteq># mset xs"
proof -
  from assms have s: "set ys = set xs" by (metis set_mset_mset)
  show "set (take k ys) \<subseteq> set xs" using set_take_subset [of k ys] s by simp
  show "distinct xs \<Longrightarrow> distinct (take k ys)"
    using assms by (metis distinct_take mset_eq_imp_distinct_iff)
  from assms have "length ys = length xs" by (metis size_mset)
  then show "length (take k ys) = min k (length xs)" by simp
  have "mset (take k ys) \<subseteq># mset (take k ys) + mset (drop k ys)" by simp
  also have "\<dots> = mset ys" by (metis append_take_drop_id mset_append)
  finally show "mset (take k ys) \<subseteq># mset xs" using assms by simp
qed

lemma noiseCount_nonneg: "0 < limit \<Longrightarrow> 0 \<le> noiseCount limit"
proof -
  assume pos: "0 < limit"
  have c: "0 < fl (3 / 10)"
    by (simp add: fl_def binade.simps roundHalfEven_def Let_def)
  define x where "x = real_of_int limit * fl (3 / 10)"
  define u where "u = (2::real) powi (max (binade \<bar>x\<bar>) (- 1022) - 52)"
  have x: "0 < x" unfolding x_def using pos c by simp
  have u: "0 < u" by (simp add: u_def)
  have "0 \<le> x / u" using x u by simp
  then have "0 \<le> roundHalfEven (x / u)"
    by (auto simp: roundHalfEven_def Let_def)
  then have "0 \<le> u * of_int (roundHalfEven (x / u))" using u by simp
  moreover have "fl x = u * of_int (roundHalfEven (x / u))"
    using x by (simp add: fl_def u_def Let_def)
  ultimately have "0 \<le> fl x" by simp
  then show ?thesis by (simp add: noiseCount_def x_def)
qed

lemma getPosts_weighted:
  assumes "weightedRequest ut uh" "0 < effectiveLimit q"
  shows "resp_posts (getPosts eng posts q ut uh)
           = take (nat (effectiveLimit q))
               (shuffleBatch eng (relevantCore eng posts (effectiveLimit q) ut uh
                  @ noiseFor eng posts (relevantCore eng posts (effectiveLimit q) ut uh)
                      (effectiveLimit q)))"
  using assms by (simp add: getPosts_def filteredFor_def Let_def jsSlice0_take)

lemma noiseFor_take:
  "0 < limit \<Longrightarrow>
   noiseFor eng posts filtered limit
     = take (nat (noiseCount limit)) (shuffleNoise eng (filter (\<lambda>p. p \<notin> set filtered) (tagPosts posts)))"
  by (simp add: noiseFor_def jsSlice0_take noiseCount_nonneg)

text \<open>
  C8, as the handler has it: on the weighted path, with a positive limit, every score a
  finite number, and whatever orders the two random sorts leave, every candidate is
  scored by the sum of its matched topic weights plus its matched hashtag weights, the
  sums taken from left to right in doubles, which is 0 when no name of the post is
  listed in the request or inherited from \<^verbatim>\<open>Object.prototype\<close>; the candidates are
  put in descending order of score and the first 2 * limit of them are the relevant
  core, so that no excluded candidate scores higher than a core one; the noise holds
  floor(limit * 0.3) of the excluded candidates, the product taken in doubles, or all
  of them when there are fewer; and the batch is the first limit items of a shuffle of
  core and noise, without repetition: its length is at most limit, and when no more
  than limit posts exist it holds every post.
\<close>

theorem weighted_batch:
  assumes weighted: "weightedRequest ut uh"
    and limit: "limit = effectiveLimit q" "0 < limit"
    and numbers: "list_all (\<lambda>x. isNumber (postScore ut uh x)) posts"
    and shuffles: "\<And>xs. mset (shuffleNoise eng xs) = mset xs" "\<And>xs. mset (shuffleBatch eng xs) = mset xs"
    and core: "core = relevantCore eng posts limit ut uh"
    and noise: "noise = noiseFor eng posts core limit"
    and batch: "batch = resp_posts (getPosts eng posts q ut uh)"
  shows "(isNumber (postScore ut uh p) \<longrightarrow> postScore ut uh p = Number (statedScore ut uh p))
    \<and> ((\<forall>t \<in> set (orEmpty (post_topics p)). t \<notin> itemKey ` set ut \<and> t \<notin> set objectPrototypeNames)
         \<and> (\<forall>h \<in> set (orEmpty (post_hashtags p)). h \<notin> itemKey ` set uh \<and> h \<notin> set objectPrototypeNames)
         \<longrightarrow> postScore ut uh p = Number 0)
    \<and> mset (ranked posts ut uh) = mset (tagPosts posts)
    \<and> sorted_wrt (\<lambda>a b. statedScore ut uh (snd a) \<ge> statedScore ut uh (snd b)) (ranked posts ut uh)
    \<and> core = take (nat (2 * limit)) (ranked posts ut uh)
    \<and> (\<forall>c \<in> set core. \<forall>x \<in> set (tagPosts posts) - set core.
           statedScore ut uh (snd x) \<le> statedScore ut uh (snd c))
    \<and> set noise \<subseteq> set (tagPosts posts) - set core \<and> distinct noise
    \<and> length noise = min (nat \<lfloor>fl (real_of_int limit * fl (3 / 10))\<rfloor>) (length posts - length core)
    \<and> mset batch \<subseteq># mset (core @ noise) \<and> distinct batch
    \<and> length batch = min (nat limit) (length core + length noise)
    \<and> int (length batch) \<le> limit
    \<and> (int (length posts) \<le> limit \<longrightarrow> mset batch = mset (tagPosts posts))"
proof -
  let ?L = "ranked posts ut uh"
  let ?T = "tagPosts posts"
  let ?k = "nat (2 * limit)"
  let ?ex = "filter (\<lambda>p. p \<notin> set core) ?T"
  have score: "isNumber (postScore ut uh p) \<longrightarrow> postScore ut uh p = Number (statedScore ut uh p)" for p
  proof
    assume "isNumber (postScore ut uh p)"
    then obtain y where y: "postScore ut uh p = Number y" by (cases "postScore ut uh p") simp_all
    from postScore_stated [OF y] y show "postScore ut uh p = Number (statedScore ut uh p)" by simp
  qed
  have listed: "numberOf (postScore ut uh (snd x)) = statedScore ut uh (snd x)" if "x \<in> set ?T" for x
  proof -
    from that have "snd x \<in> set posts" by (rule tagPosts_snd)
    with numbers have "isNumber (postScore ut uh (snd x))" by (simp add: list_all_iff)
    with score [of "snd x"] show ?thesis by simp
  qed
  have zero: "(\<forall>t \<in> set (orEmpty (post_topics p)). t \<notin> itemKey ` set ut \<and> t \<notin> set objectPrototypeNames)
         \<and> (\<forall>h \<in> set (orEmpty (post_hashtags p)). h \<notin> itemKey ` set uh \<and> h \<notin> set objectPrototypeNames)
         \<longrightarrow> postScore ut uh p = Number 0"
    using postScore_unmatched [of p ut uh] by blast
  have perm: "mset ?L = mset ?T" by (rule ranked_mset)
  have sorted: "sorted_wrt (\<lambda>a b. statedScore ut uh (snd a) \<ge> statedScore ut uh (snd b)) ?L"
    by (rule sorted_wrt_mono_rel [OF _ ranked_sorted [of ut uh posts]])
       (simp add: listed ranked_set)
  have coreL: "core = take ?k ?L"
    unfolding core using limit(2) by (simp add: relevantCore_take [OF numbers] mult.commute)
  have core_distinct: "distinct core"
    unfolding coreL using ranked_distinct by (rule distinct_take)
  have core_sub: "set core \<subseteq> set ?T"
    unfolding coreL using set_take_subset [of ?k ?L] by (simp add: ranked_set)
  have core_len: "length core = min ?k (length posts)"
    unfolding coreL length_take ranked_length by (rule min.commute)
  have rest: "set ?T - set core = set (drop ?k ?L)"
  proof -
    have "set ?L = set (take ?k ?L) \<union> set (drop ?k ?L)"
      by (metis append_take_drop_id set_append)
    moreover have "set (take ?k ?L) \<inter> set (drop ?k ?L) = {}"
      using ranked_distinct [of posts ut uh] by (metis append_take_drop_id distinct_append)
    ultimately show ?thesis unfolding coreL ranked_set [of posts ut uh, symmetric] by blast
  qed
  have top: "\<forall>c \<in> set core. \<forall>x \<in> set ?T - set core.
           statedScore ut uh (snd x) \<le> statedScore ut uh (snd c)"
    unfolding rest unfolding coreL
    using sorted_wrt_take_drop [OF sorted] by blast
  have ex_distinct: "distinct ?ex" using tagPosts_distinct by simp
  have ex_len: "length ?ex = length posts - length core"
    using excluded_length [OF tagPosts_distinct core_distinct core_sub] by (simp add: tagPosts_length)
  have noiseT: "noise = take (nat (noiseCount limit)) (shuffleNoise eng ?ex)"
    unfolding noise using limit(2) by (rule noiseFor_take)
  note n = shuffled_take [OF shuffles(1) [of ?ex], of "nat (noiseCount limit)"]
  have noise_sub: "set noise \<subseteq> set ?T - set core"
    unfolding noiseT using n(1) by auto
  have noise_distinct: "distinct noise"
    unfolding noiseT using n(2) ex_distinct by blast
  have noise_len: "length noise = min (nat \<lfloor>fl (real_of_int limit * fl (3 / 10))\<rfloor>) (length posts - length core)"
  proof -
    have "length noise = min (nat (noiseCount limit)) (length ?ex)"
      unfolding noiseT by (rule n(3))
    then show ?thesis by (simp only: ex_len noiseCount_def)
  qed
  have batchT: "batch = take (nat limit) (shuffleBatch eng (core @ noise))"
    unfolding batch core noise limit(1)
    by (rule getPosts_weighted [OF weighted]) (use limit in simp)
  note b = shuffled_take [OF shuffles(2) [of "core @ noise"], of "nat limit"]
  have all_distinct: "distinct (core @ noise)"
    using core_distinct noise_distinct noise_sub by auto
  have batch_sub: "mset batch \<subseteq># mset (core @ noise)"
    unfolding batchT by (rule b(4))
  have batch_distinct: "distinct batch"
    unfolding batchT using b(2) all_distinct by blast
  have batch_len: "length batch = min (nat limit) (length core + length noise)"
    unfolding batchT b(3) by simp
  have bounded: "int (length batch) \<le> limit"
    unfolding batch_len using limit(2) by simp
  have every: "int (length posts) \<le> limit \<longrightarrow> mset batch = mset ?T"
  proof
    assume few: "int (length posts) \<le> limit"
    then have "length ?L \<le> ?k" using limit(2) by (simp add: ranked_length)
    then have whole: "core = ?L" unfolding coreL by simp
    then have "length core = length posts" by (simp add: ranked_length)
    then have "noise = []" using noise_len by simp
    then have "batch = take (nat limit) (shuffleBatch eng ?L)"
      unfolding batchT whole by simp
    moreover have "length (shuffleBatch eng ?L) \<le> nat limit"
      using few shuffles(2) [of ?L] by (metis size_mset ranked_length nat_int nat_mono)
    ultimately have "batch = shuffleBatch eng ?L" by simp
    then show "mset batch = mset ?T" by (simp add: shuffles(2) perm)
  qed
  show ?thesis
    using score zero perm sorted coreL top noise_sub noise_distinct noise_len batch_sub
      batch_distinct batch_len bounded every
    by (intro conjI)
qed

text \<open>
  The handler on nine posts with the limit 4. The sum of the weights 0.1 and 0.2 is the
  double above 0.3, so that the second post is ranked before the first; the core is
  the first eight candidates, and one of the excluded posts is added as noise.
\<close>

lemma mset_rotate1: "mset (rotate1 xs) = mset xs"
  by (cases xs) simp_all

lemma tenths:
  "toDouble (1 / 10) = Number (3602879701896397 / 36028797018963968)"
  "toDouble (1 / 5) = Number (3602879701896397 / 18014398509481984)"
  "toDouble (3 / 10) = Number (5404319552844595 / 18014398509481984)"
  "toDouble (3602879701896397 / 36028797018963968) = Number (3602879701896397 / 36028797018963968)"
  "toDouble (3602879701896397 / 18014398509481984) = Number (3602879701896397 / 18014398509481984)"
  "toDouble (5404319552844595 / 18014398509481984) = Number (5404319552844595 / 18014398509481984)"
  "toDouble (10808639105689191 / 36028797018963968) = Number (1351079888211149 / 4503599627370496)"
  "toDouble (1351079888211149 / 4503599627370496) = Number (1351079888211149 / 4503599627370496)"
  by (simp_all add: toDouble_def fl_def binade.simps roundHalfEven_def Let_def)

lemma tenthsMap:
  "weightMap tenthsRequest
     = [''a'' \<mapsto> Some (Number (3602879701896397 / 36028797018963968)),
        ''b'' \<mapsto> Some (Number (3602879701896397 / 18014398509481984)),
        ''c'' \<mapsto> Some (Number (5404319552844595 / 18014398509481984))]"
  by (simp add: weightMap_def tenthsRequest_def tenths)

lemma emptyMap: "weightMap [] = Map.empty"
  by (simp add: weightMap_def)

lemma nineScores:
  "map (postScore tenthsRequest []) ninePosts
     = [Number (5404319552844595 / 18014398509481984), Number (1351079888211149 / 4503599627370496),
        Number 0, Number (3602879701896397 / 36028797018963968), Number 0,
        Number (3602879701896397 / 18014398509481984), Number 0, Number 0, Number 0]"
  unfolding postScore_def tenthsMap emptyMap
  by (simp add: namesScore_def lookupWeight_def objectPrototypeNames_def ninePosts_def tenths
      toDouble_zero)

lemma nineTagged:
  "map (\<lambda>p. (p, postScore tenthsRequest [] (snd p))) (tagPosts ninePosts)
     = zip (tagPosts ninePosts) (map (postScore tenthsRequest []) ninePosts)"
  by (simp add: tagPosts_def ninePosts_def upt_rec)

lemma nineNoiseCount: "noiseCount 4 = 1"
  by (simp add: noiseCount_def fl_def binade.simps roundHalfEven_def Let_def)

lemma nineCore:
  "map fst (relevantCore someEngine ninePosts 4 tenthsRequest []) = [1, 0, 5, 3, 2, 4, 6, 7]"
  unfolding relevantCore_def nineTagged nineScores
  by (simp add: sortScored_def sortDesc_def jsSlice0_def tagPosts_def ninePosts_def upt_rec)

lemma nineNoise:
  "map fst (noiseFor someEngine ninePosts (relevantCore someEngine ninePosts 4 tenthsRequest []) 4) = [8]"
  unfolding relevantCore_def nineTagged nineScores noiseFor_def nineNoiseCount
  by (simp add: sortScored_def sortDesc_def jsSlice0_def tagPosts_def ninePosts_def upt_rec
      someEngine_def)

lemma nineBatch:
  "map fst (resp_posts (getPosts someEngine ninePosts (Some 4) tenthsRequest [])) = [0, 5, 3, 2]"
  unfolding getPosts_def filteredFor_def relevantCore_def nineTagged nineScores noiseFor_def Let_def
  by (simp add: nineNoiseCount effectiveLimit_def weightedRequest_def tenthsRequest_def
      sortScored_def sortDesc_def jsSlice0_def tagPosts_def ninePosts_def upt_rec someEngine_def)

theorem weighted_batch_witness:
  "weightedRequest tenthsRequest [] \<and> 0 < effectiveLimit (Some 4)
   \<and> list_all (\<lambda>x. isNumber (postScore tenthsRequest [] x)) ninePosts
   \<and> map fst (relevantCore someEngine ninePosts 4 tenthsRequest []) = [1, 0, 5, 3, 2, 4, 6, 7]
   \<and> relevantCore someEngine ninePosts 4 tenthsRequest [] = take 8 (ranked ninePosts tenthsRequest [])
   \<and> map fst (noiseFor someEngine ninePosts (relevantCore someEngine ninePosts 4 tenthsRequest []) 4) = [8]
   \<and> map fst (resp_posts (getPosts someEngine ninePosts (Some 4) tenthsRequest [])) = [0, 5, 3, 2]
   \<and> int (length (resp_posts (getPosts someEngine ninePosts (Some 4) tenthsRequest []))) \<le> 4
   \<and> postScore tenthsRequest [] (ninePosts ! 2) = Number 0"
proof -
  have w: "weightedRequest tenthsRequest []"
    by (simp add: weightedRequest_def tenthsRequest_def)
  have lim: "4 = effectiveLimit (Some 4)" by (simp add: effectiveLimit_def)
  have pos: "0 < (4::int)" by simp
  have nums: "list_all (\<lambda>x. isNumber (postScore tenthsRequest [] x)) ninePosts"
    using nineScores by (simp add: ninePosts_def)
  have sh: "\<And>xs. mset (shuffleNoise someEngine xs) = mset xs"
    "\<And>xs. mset (shuffleBatch someEngine xs) = mset xs"
    by (simp_all add: someEngine_def mset_rotate1)
  note inst = weighted_batch [where posts = ninePosts and p = "ninePosts ! 2" and eng = someEngine,
      OF w lim pos nums sh refl refl refl]
  have unmatched:
    "(\<forall>t \<in> set (orEmpty (post_topics (ninePosts ! 2))).
         t \<notin> itemKey ` set tenthsRequest \<and> t \<notin> set objectPrototypeNames)
     \<and> (\<forall>h \<in> set (orEmpty (post_hashtags (ninePosts ! 2))).
         h \<notin> itemKey ` set [] \<and> h \<notin> set objectPrototypeNames)"
    by (simp add: ninePosts_def orEmpty_def tenthsRequest_def objectPrototypeNames_def)
  have c: "relevantCore someEngine ninePosts 4 tenthsRequest [] = take 8 (ranked ninePosts tenthsRequest [])"
    using inst by simp
  have z: "postScore tenthsRequest [] (ninePosts ! 2) = Number 0"
    using inst unmatched by blast
  have b: "int (length (resp_posts (getPosts someEngine ninePosts (Some 4) tenthsRequest []))) \<le> 4"
    using inst by simp
  have p: "0 < effectiveLimit (Some 4)" by (simp add: effectiveLimit_def)
  show ?thesis
    by (intro conjI w p nums nineCore c nineNoise nineBatch b z)
qed

text \<open>
  Where the statement of the handler stops. A negative limit makes every \<^verbatim>\<open>slice\<close>
  count from the end: with the limit -1 the handler answers with two of the four
  posts, so that the batch is not bounded by the limit.
\<close>

theorem negative_limit_batch:
  "map fst (resp_posts (getPosts someEngine fourPosts (Some (- 1)) sportsRequest voteRequest)) = [2, 3]
   \<and> resp_limit (getPosts someEngine fourPosts (Some (- 1)) sportsRequest voteRequest) = - 1"
proof -
  have d: "toDouble 2 = Number 2" "toDouble (1 / 2) = Number (1 / 2)" "toDouble (5 / 2) = Number (5 / 2)"
    "toDouble 4 = Number 4"
    by (simp_all add: toDouble_def fl_def binade.simps roundHalfEven_def Let_def)
  have m: "weightMap sportsRequest = [''sports'' \<mapsto> Some (Number 2)]"
    "weightMap voteRequest = [''#vote'' \<mapsto> Some (Number (1 / 2))]"
    by (simp_all add: weightMap_def sportsRequest_def voteRequest_def d)
  have s: "map (postScore sportsRequest voteRequest) fourPosts = [Number 2, Number (1 / 2), Number 2, Number 0]"
    unfolding postScore_def m
    by (simp add: namesScore_def lookupWeight_def objectPrototypeNames_def fourPosts_def d toDouble_zero)
  have t: "map (\<lambda>p. (p, postScore sportsRequest voteRequest (snd p))) (tagPosts fourPosts)
     = zip (tagPosts fourPosts) (map (postScore sportsRequest voteRequest) fourPosts)"
    by (simp add: tagPosts_def fourPosts_def upt_rec)
  have n: "noiseCount (- 1) = - 1"
    by (simp add: noiseCount_def fl_def binade.simps roundHalfEven_def Let_def)
  show ?thesis
    unfolding getPosts_def filteredFor_def relevantCore_def t s noiseFor_def Let_def
    by (simp add: n effectiveLimit_def weightedRequest_def sportsRequest_def
        sortScored_def sortDesc_def jsSlice0_def tagPosts_def fourPosts_def upt_rec someEngine_def)
qed

text \<open>
  A post on the topic \<^verbatim>\<open>constructor\<close>, which the request does not list, does not
  score 0: the inherited function is added to the sum, which becomes a string.
\<close>

lemma inherited_name_score: "postScore sportsRequest voteRequest constructorPost = Other"
  by (simp add: postScore_def namesScore_def lookupWeight_def weightMap_def sportsRequest_def
      voteRequest_def constructorPost_def objectPrototypeNames_def)

end
